theory Spec2Isabelle
  imports Complex_Main "HOL-Library.AList" "HOL-Library.Sublist"
begin

section \<open>Web Vitals popup: metrics, field data and their reconciliation\<close>

text \<open>
  The development embeds class \<^verbatim>\<open>Popup\<close> of \<^verbatim>\<open>src/browser_action/popup.js\<close>, statement by
  statement, together with what it imports for the Web Vitals tab from \<^verbatim>\<open>metric.js\<close>
  (classes \<^verbatim>\<open>LCP\<close>, \<^verbatim>\<open>INP\<close>, \<^verbatim>\<open>CLS\<close>, \<^verbatim>\<open>FCP\<close>, \<^verbatim>\<open>TTFB\<close>) and \<^verbatim>\<open>crux.js\<close> (class \<^verbatim>\<open>CrUX\<close>).
  The definitions that stand for \<^verbatim>\<open>metric.js\<close> and \<^verbatim>\<open>crux.js\<close> are marked
  \<open>Modelled from the spec\<close> and follow the wording of the specification.

  Numbers are finite JavaScript numbers, read as the reals they denote. Strings are
  lists of characters.
\<close>

subsection \<open>Ratings, kinds and thresholds\<close>

datatype rating = Good | NeedsImprovement | Poor

datatype metric_kind = LCP | CLS | INP | FCP | TTFB

datatype form_factor = PHONE | DESKTOP

datatype metric_error = InvalidSample | InvalidDistribution

text \<open>
  Modelled from the spec: the per-kind constants of \<^verbatim>\<open>metric.js\<close> (MetricThresholds) are
  missing. A kind owns a good upper bound, a needs-improvement upper bound (values at or
  above it are poor) and the maximum of its visualisation scale. The table from kinds to
  these constants is a parameter wherever it is needed.
\<close>

record thresholds =
  goodBound :: real
  poorBound :: real
  scaleMax :: real

text \<open>
  Modelled from the spec: \<^verbatim>\<open>rating(value)\<close> of \<^verbatim>\<open>metric.js\<close> is missing.
  \<^verbatim>\<open>value < goodBound \<rightarrow> good; goodBound \<le> value < poorBound \<rightarrow> needs-improvement;
  value \<ge> poorBound \<rightarrow> poor\<close>; a negative sample fails with \<^verbatim>\<open>InvalidSample\<close>.
\<close>

definition rating :: "thresholds \<Rightarrow> real \<Rightarrow> metric_error + rating" where
  "rating t v =
     (if v < 0 then Inl InvalidSample
      else if v < goodBound t then Inr Good
      else if v < poorBound t then Inr NeedsImprovement
      else Inr Poor)"

text \<open>
  Modelled from the spec: \<^verbatim>\<open>relativePosition(value)\<close> of \<^verbatim>\<open>metric.js\<close> is missing. The
  position of the value on a scale from 0 to the kind's maximum, clamped to \<open>[0,1]\<close>;
  a value beyond the maximum is marked overflowed.
\<close>

definition relativePosition :: "thresholds \<Rightarrow> real \<Rightarrow> real" where
  "relativePosition t v = min 1 (max 0 (v / scaleMax t))"

definition overflowed :: "thresholds \<Rightarrow> real \<Rightarrow> bool" where
  "overflowed t v = (scaleMax t < v)"

text \<open>
  Modelled from the spec: \<^verbatim>\<open>assessmentIndex(rating)\<close> of \<^verbatim>\<open>metric.js\<close> is missing. It maps a
  rating to the index of its bucket in a three-bucket distribution.
\<close>

fun assessmentIndex :: "rating \<Rightarrow> nat" where
  "assessmentIndex Good = 0"
| "assessmentIndex NeedsImprovement = 1"
| "assessmentIndex Poor = 2"

subsection \<open>Decimal formatting\<close>

definition digit :: "nat \<Rightarrow> char" where
  "digit d = ''0123456789'' ! d"

fun show_nat :: "nat \<Rightarrow> string" where
  "show_nat n = (if n < 10 then [digit n] else show_nat (n div 10) @ [digit (n mod 10)])"

declare show_nat.simps [simp del]

text \<open>
  The digits of \<open>x\<close> with \<open>p\<close> decimals, as \<^verbatim>\<open>Number.prototype.toFixed\<close> writes them for
  a number below \<open>10\<^sup>2\<^sup>1\<close>: the nearest multiple of \<open>10\<^sup>-\<^sup>p\<close>, the larger one on a tie,
  with a minus sign for a negative number.
\<close>

definition toFixed :: "real \<Rightarrow> nat \<Rightarrow> string" where
  "toFixed x p =
     (let n = nat \<lfloor>\<bar>x\<bar> * 10 ^ p + 1 / 2\<rfloor>;
          whole = show_nat (n div 10 ^ p);
          frac = show_nat (n mod 10 ^ p)
      in (if x < 0 then ''-'' else '''') @ whole @
         (if p = 0 then '''' else ''.'' @ replicate (p - length frac) (CHR ''0'') @ frac))"

subsection \<open>The Metric value object\<close>

text \<open>
  Modelled from the spec: the \<^verbatim>\<open>Metric\<close> classes of \<^verbatim>\<open>metric.js\<close> are missing. A Metric has a
  kind, a local value, a local rating and an optional field distribution. \<^verbatim>\<open>popup.js\<close>
  constructs one with \<^verbatim>\<open>new LCP({local, rating, background})\<close> and reads \<^verbatim>\<open>id\<close>, \<^verbatim>\<open>abbr\<close>,
  \<^verbatim>\<open>local\<close>, \<^verbatim>\<open>rating\<close> and \<^verbatim>\<open>distribution\<close>. The rating passed to the constructor may be
  absent (\<^verbatim>\<open>popup.js\<close> tests \<^verbatim>\<open>!!rating\<close>).
\<close>

record metric =
  m_kind :: metric_kind
  m_local :: real
  m_rating :: "rating option"
  m_background :: bool
  m_distribution :: "real list option"

fun metric_id :: "metric_kind \<Rightarrow> string" where
  "metric_id LCP = ''lcp''"
| "metric_id CLS = ''cls''"
| "metric_id INP = ''inp''"
| "metric_id FCP = ''fcp''"
| "metric_id TTFB = ''ttfb''"

fun abbr :: "metric_kind \<Rightarrow> string" where
  "abbr LCP = ''LCP''"
| "abbr CLS = ''CLS''"
| "abbr INP = ''INP''"
| "abbr FCP = ''FCP''"
| "abbr TTFB = ''TTFB''"

definition new_Metric :: "metric_kind \<Rightarrow> real \<Rightarrow> rating option \<Rightarrow> bool \<Rightarrow> metric" where
  "new_Metric k local r background =
     \<lparr>m_kind = k, m_local = local, m_rating = r, m_background = background,
      m_distribution = None\<rparr>"

text \<open>
  Modelled from the spec: \<^verbatim>\<open>density(bucketIndex, precision)\<close> of \<^verbatim>\<open>metric.js\<close> is missing.
  With a distribution attached it is the bucket's fraction as a percentage string with
  the given number of decimals; without one it is a sentinel. The spec says nothing
  about an index the distribution does not have; the sentinel is returned there too.
\<close>

datatype density = Percentage string | Unavailable

definition getDensity :: "metric \<Rightarrow> nat \<Rightarrow> nat \<Rightarrow> density" where
  "getDensity m i p =
     (case m_distribution m of
        None \<Rightarrow> Unavailable
      | Some d \<Rightarrow>
          if i < length d then Percentage (toFixed (d ! i * 100) p @ ''%'') else Unavailable)"

section \<open>Field data\<close>

datatype scope = PageScope | OriginFallback

text \<open>
  Modelled from the spec: the value \<^verbatim>\<open>CrUX.load\<close> resolves to (FieldDataResult) and its
  accessors in \<^verbatim>\<open>crux.js\<close> are missing. A result has a scope, the effective URL or origin,
  the payload's entries \<^verbatim>\<open>{id, data}\<close> and the requested form factor. The \<^verbatim>\<open>data\<close> of an
  entry is represented by the densities \<^verbatim>\<open>CrUX.getDistribution(data)\<close> yields for it.
\<close>

record fieldData =
  fd_scope :: scope
  fd_url :: string
  fd_metrics :: "(string \<times> real list) list"
  fd_formFactor :: form_factor

definition isOriginFallback :: "fieldData \<Rightarrow> bool" where
  "isOriginFallback fd = (fd_scope fd = OriginFallback)"

definition getOrigin :: "fieldData \<Rightarrow> string" where
  "getOrigin fd = fd_url fd"

definition getNormalizedUrl :: "fieldData \<Rightarrow> string" where
  "getNormalizedUrl fd = fd_url fd"

definition getMetrics :: "fieldData \<Rightarrow> (string \<times> real list) list" where
  "getMetrics fd = fd_metrics fd"

text \<open>
  Modelled from the spec: the invariant of a Distribution, three fractions that are
  individually non-negative and sum to at most \<open>1 + \<epsilon>\<close>.
\<close>

definition valid_distribution :: "real \<Rightarrow> real list \<Rightarrow> bool" where
  "valid_distribution eps d =
     (length d = 3 \<and> list_all (\<lambda>x. 0 \<le> x) d \<and> sum_list d \<le> 1 + eps)"

subsection \<open>The field-data client\<close>

text \<open>
  Modelled from the spec: \<^verbatim>\<open>CrUX.load\<close> of \<^verbatim>\<open>crux.js\<close> is missing. The external API is a
  function from requests to responses; a response is a record (the URL or origin that
  matched, and the entries), the documented not-found answer, or a transport failure
  (timeout, HTTP error, malformed payload). The client asks for the page, with the query
  stripped; on not-found it asks once for the origin (scheme and host only). It returns
  its result together with the requests it issued, in order.
\<close>

datatype request = PageRequest string form_factor | OriginRequest string form_factor

datatype response = Record string "(string \<times> real list) list" | NotFound | TransportFailure

datatype field_error = FieldDataUnavailable | FieldDataTransportError

definition stripQuery :: "string \<Rightarrow> string" where
  "stripQuery u = takeWhile (\<lambda>c. c \<noteq> CHR ''?'') u"

fun origin_scan :: "nat \<Rightarrow> string \<Rightarrow> string" where
  "origin_scan n [] = []"
| "origin_scan n (c # cs) =
     (if c = CHR ''/'' then (if 2 \<le> n then [] else c # origin_scan (Suc n) cs)
      else if 2 \<le> n \<and> (c = CHR ''?'' \<or> c = CHR ''#'') then []
      else c # origin_scan n cs)"

definition origin_of :: "string \<Rightarrow> string" where
  "origin_of u = origin_scan 0 u"

definition load ::
  "(request \<Rightarrow> response) \<Rightarrow> string \<Rightarrow> form_factor \<Rightarrow> (field_error + fieldData) \<times> request list"
where
  "load api url formFactor =
     (let page = PageRequest (stripQuery url) formFactor;
          origin = OriginRequest (origin_of url) formFactor
      in case api page of
           Record matched entries \<Rightarrow>
             (Inr \<lparr>fd_scope = PageScope, fd_url = matched, fd_metrics = entries,
                   fd_formFactor = formFactor\<rparr>, [page])
         | TransportFailure \<Rightarrow> (Inl FieldDataTransportError, [page])
         | NotFound \<Rightarrow>
             (case api origin of
                Record matched entries \<Rightarrow>
                  (Inr \<lparr>fd_scope = OriginFallback, fd_url = origin_of url,
                        fd_metrics = entries, fd_formFactor = formFactor\<rparr>, [page, origin])
              | NotFound \<Rightarrow> (Inl FieldDataUnavailable, [page, origin])
              | TransportFailure \<Rightarrow> (Inl FieldDataTransportError, [page, origin])))"

section \<open>The popup\<close>

text \<open>
  From here on the definitions follow \<^verbatim>\<open>popup.js\<close>. The popup document is assumed to hold
  the fixed elements the code looks up by id or class (\<^verbatim>\<open>#status\<close>, \<^verbatim>\<open>#page\<close>, \<^verbatim>\<open>#timestamp\<close>,
  \<^verbatim>\<open>#metric-template\<close>, \<^verbatim>\<open>.metrics-container\<close>, \<^verbatim>\<open>.device-icon\<close>); the elements of a metric
  exist once \<^verbatim>\<open>renderMetric\<close> has appended them, and a lookup of a metric element that
  was never appended yields \<^verbatim>\<open>null\<close>, whose use throws a \<^verbatim>\<open>TypeError\<close>.
  \<^verbatim>\<open>this.metrics\<close> is the list of its own properties in insertion order; what it inherits
  is described where it is read.

  Not modelled: \<^verbatim>\<open>initTabs\<close>, \<^verbatim>\<open>loadServerInfo\<close>, \<^verbatim>\<open>loadDNSInfo\<close> and \<^verbatim>\<open>showEOLNotice\<close> (other
  tabs and a notice, which touch none of the state below), and \<^verbatim>\<open>checkReversal\<close> with
  \<^verbatim>\<open>whenSettled\<close> (layout geometry). The \<^verbatim>\<open>requestAnimationFrame\<close> callback of
  \<^verbatim>\<open>renderMetric\<close>, which writes the hovercard of the element just appended, is taken to
  run with \<^verbatim>\<open>renderMetric\<close>.
\<close>

datatype js_error = TypeError

datatype 'a outcome = Done 'a | Threw js_error 'a

fun and_then :: "'a outcome \<Rightarrow> ('a \<Rightarrow> 'a outcome) \<Rightarrow> 'a outcome" where
  "and_then (Done s) f = f s"
| "and_then (Threw e s) f = Threw e s"

record sample =
  s_value :: real
  s_rating :: "rating option"

record local_metrics =
  lm_timestamp :: int
  lm_samples :: "string \<rightharpoonup> sample"

record options =
  preferPhoneField :: bool

record input =
  in_metrics :: "local_metrics option"
  in_background :: bool
  in_options :: options
  in_url :: string
  in_error :: "string option"

text \<open>The fields the constructor assigns to \<^verbatim>\<open>this\<close>, all at once, before \<^verbatim>\<open>init\<close>.\<close>

record popup =
  this_timestamp :: string
  this__metrics :: "string \<rightharpoonup> sample"
  this_background :: bool
  this_options :: options
  this_metrics :: "(string \<times> metric) list"
  this_url :: string

datatype status_content = StatusText string | StatusFragment string

record hovercard =
  hc_abbr :: string
  hc_local :: string
  hc_assessment :: "rating option"
  hc_field :: "(density \<times> string \<times> string) option"

record metric_element =
  el_id :: string
  el_name :: string
  el_marginLeft :: real
  el_localValue :: string
  el_ratingClass :: "rating option"
  el_infoTitle :: string
  el_infoHidden :: bool
  el_ratingText :: "density list"
  el_ratingWidth :: "density list"
  el_minRatingWidth :: "real option"
  el_hovercard :: "hovercard option"

text \<open>
  The document as the popup writes it, and the calls of \<^verbatim>\<open>CrUX.load\<close> issued so far.
\<close>

record world =
  doc_status :: status_content
  doc_page :: string
  doc_timestamp :: string
  doc_metrics :: "metric_element list"
  doc_device :: "string list"
  crux_loads :: "(string \<times> form_factor) list"

text \<open>
  What \<^verbatim>\<open>popup.js\<close> uses of its environment and of the Metric classes beyond the methods
  modelled above: the time formatting of the host, and per kind the threshold constants,
  the display name, \<^verbatim>\<open>formatValue\<close>, \<^verbatim>\<open>getInfo\<close>, \<^verbatim>\<open>MIN_PCT\<close> and the default precision of
  \<^verbatim>\<open>getDensity\<close>.
\<close>

record env =
  toLocaleTimeString :: "int \<Rightarrow> string"
  MetricThresholds :: "metric_kind \<Rightarrow> thresholds"
  metric_name :: "metric_kind \<Rightarrow> string"
  formatValue :: "metric_kind \<Rightarrow> real \<Rightarrow> string"
  getInfo :: "metric_kind \<Rightarrow> string option"
  MIN_PCT :: real
  defaultPrecision :: nat

definition getRelativePosition :: "env \<Rightarrow> metric \<Rightarrow> real \<Rightarrow> real" where
  "getRelativePosition env m v = relativePosition (MetricThresholds env (m_kind m)) v"

definition toLowerCase :: "form_factor \<Rightarrow> string" where
  "toLowerCase f = (case f of PHONE \<Rightarrow> ''phone'' | DESKTOP \<Rightarrow> ''desktop'')"

text \<open>
  The horizontal ellipsis U+2026 that ends the status line of \<^verbatim>\<open>initStatus\<close>, as its three
  bytes in UTF-8, and the line feed.
\<close>

definition ellipsis :: string where
  "ellipsis = [CHR 0xE2, CHR 0x80, CHR 0xA6]"

definition newline :: string where
  "newline = [CHR 0x0A]"

subsection \<open>Writing the document\<close>

definition setStatus :: "status_content \<Rightarrow> world \<Rightarrow> world" where
  "setStatus status w = w\<lparr>doc_status := status\<rparr>"

definition setPage :: "string \<Rightarrow> world \<Rightarrow> world" where
  "setPage url w = w\<lparr>doc_page := url\<rparr>"

definition setDevice :: "form_factor \<Rightarrow> world \<Rightarrow> world" where
  "setDevice formFactor w =
     (let c = ''device-'' @ toLowerCase formFactor
      in if c \<in> set (doc_device w) then w else w\<lparr>doc_device := doc_device w @ [c]\<rparr>)"

fun update_first ::
  "string \<Rightarrow> (metric_element \<Rightarrow> metric_element) \<Rightarrow> metric_element list \<Rightarrow> metric_element list"
where
  "update_first i f [] = []"
| "update_first i f (e # es) = (if el_id e = i then f e # es else e # update_first i f es)"

definition querySelector :: "string \<Rightarrow> world \<Rightarrow> metric_element option" where
  "querySelector i w = find (\<lambda>e. el_id e = i) (doc_metrics w)"

text \<open>
  The values \<^verbatim>\<open>setHovercardText\<close> puts into the hovercard's text. With field data the text
  also names the density of the assessment bucket at precision 0, the scope and the form
  factor; a Metric without a rating has no assessment bucket, and its density is the
  sentinel.
\<close>

definition hovercardText :: "env \<Rightarrow> metric \<Rightarrow> (fieldData \<times> form_factor) option \<Rightarrow> hovercard" where
  "hovercardText env m field =
     \<lparr>hc_abbr = abbr (m_kind m),
      hc_local = formatValue env (m_kind m) (m_local m),
      hc_assessment = m_rating m,
      hc_field =
        (case field of
           None \<Rightarrow> None
         | Some (fd, formFactor) \<Rightarrow>
             Some (case m_rating m of
                     None \<Rightarrow> Unavailable
                   | Some r \<Rightarrow> getDensity m (assessmentIndex r) 0,
                   if isOriginFallback fd then ''origin'' else ''page'',
                   toLowerCase formFactor))\<rparr>"

definition setHovercardText ::
  "env \<Rightarrow> metric \<Rightarrow> (fieldData \<times> form_factor) option \<Rightarrow> world \<Rightarrow> world" where
  "setHovercardText env m field w =
     w\<lparr>doc_metrics :=
         update_first (metric_id (m_kind m))
           (\<lambda>e. e\<lparr>el_hovercard := Some (hovercardText env m field)\<rparr>) (doc_metrics w)\<rparr>"

subsection \<open>Rendering the local metrics\<close>

definition renderMetric :: "env \<Rightarrow> metric \<Rightarrow> world \<Rightarrow> world" where
  "renderMetric env m w =
     (let info = (case getInfo env (m_kind m) of None \<Rightarrow> [] | Some s \<Rightarrow> s);
          e = \<lparr>el_id = metric_id (m_kind m),
               el_name = metric_name env (m_kind m),
               el_marginLeft = getRelativePosition env m (m_local m),
               el_localValue = formatValue env (m_kind m) (m_local m),
               el_ratingClass = m_rating m,
               el_infoTitle = info,
               el_infoHidden = (info = []),
               el_ratingText = [],
               el_ratingWidth = [],
               el_minRatingWidth = None,
               el_hovercard = None\<rparr>
      in setHovercardText env m None (w\<lparr>doc_metrics := doc_metrics w @ [e]\<rparr>))"

definition renderMetrics :: "env \<Rightarrow> popup \<times> world \<Rightarrow> popup \<times> world" where
  "renderMetrics env s =
     (case s of (p, w) \<Rightarrow> (p, fold (renderMetric env) (map snd (this_metrics p)) w))"

text \<open>
  One assignment \<^verbatim>\<open>this.metrics.lcp = new LCP({local: this._metrics.lcp.value, ...})\<close> of
  \<^verbatim>\<open>initMetrics\<close>: reading \<^verbatim>\<open>.value\<close> of a sample that is not there throws.
\<close>

definition create :: "metric_kind \<Rightarrow> popup \<times> world \<Rightarrow> (popup \<times> world) outcome" where
  "create k s =
     (case s of (p, w) \<Rightarrow>
        (case this__metrics p (metric_id k) of
           None \<Rightarrow> Threw TypeError (p, w)
         | Some smp \<Rightarrow>
             Done (p\<lparr>this_metrics :=
                        AList.update (metric_id k)
                          (new_Metric k (s_value smp) (s_rating smp) (this_background p))
                          (this_metrics p)\<rparr>, w)))"

definition initMetrics :: "env \<Rightarrow> popup \<times> world \<Rightarrow> (popup \<times> world) outcome" where
  "initMetrics env s =
     and_then (create LCP s) (\<lambda>s.
     and_then (create CLS s) (\<lambda>s.
     and_then (create INP s) (\<lambda>s.
     and_then (create FCP s) (\<lambda>s.
     and_then (create TTFB s) (\<lambda>s.
     Done (renderMetrics env s))))))"

subsection \<open>Field data in the popup\<close>

definition formFactorOf :: "popup \<Rightarrow> form_factor" where
  "formFactorOf p = (if preferPhoneField (this_options p) then PHONE else DESKTOP)"

text \<open>
  \<^verbatim>\<open>this.metrics\<close> is created as \<^verbatim>\<open>{}\<close>, so it inherits from \<^verbatim>\<open>Object.prototype\<close>. Reading
  \<^verbatim>\<open>this.metrics[id]\<close> yields the own property of that name if there is one; otherwise the
  member of \<^verbatim>\<open>Object.prototype\<close> of that name, a built-in function (for \<^verbatim>\<open>__proto__\<close>, the
  prototype object), which is truthy and is no Metric; otherwise \<^verbatim>\<open>undefined\<close>. The names
  are those of the standard members of \<^verbatim>\<open>Object.prototype\<close>.
\<close>

definition Object_prototype :: "string list" where
  "Object_prototype =
     [''constructor'', ''__defineGetter__'', ''__defineSetter__'', ''hasOwnProperty'',
      ''__lookupGetter__'', ''__lookupSetter__'', ''isPrototypeOf'', ''propertyIsEnumerable'',
      ''toString'', ''valueOf'', ''__proto__'', ''toLocaleString'']"

datatype 'a property = Own 'a | Inherited | Absent

definition property_of :: "(string \<times> 'a) list \<Rightarrow> string \<Rightarrow> 'a property" where
  "property_of obj k =
     (case map_of obj k of
        Some v \<Rightarrow> Own v
      | None \<Rightarrow> if k \<in> set Object_prototype then Inherited else Absent)"

text \<open>
  The body of the \<^verbatim>\<open>forEach\<close> callback of \<^verbatim>\<open>renderFieldData\<close>, for one entry \<^verbatim>\<open>{id, data}\<close>.
  When \<^verbatim>\<open>this.metrics[id]\<close> is an inherited member the guard \<^verbatim>\<open>if (!metric)\<close> does not return.
  The assignment of \<^verbatim>\<open>.distribution\<close> then writes a property of that built-in object, which
  nothing the popup does afterwards reads, and the next statement throws a \<^verbatim>\<open>TypeError\<close>:
  the member has no \<^verbatim>\<open>id\<close>, so the element is looked up as \<^verbatim>\<open>#undefined\<close>, and whether or
  not there is one, the member has no method \<^verbatim>\<open>getRelativePosition\<close> to call.
\<close>

definition renderFieldData_entry ::
  "env \<Rightarrow> fieldData \<Rightarrow> form_factor \<Rightarrow> string \<times> real list \<Rightarrow> popup \<times> world
     \<Rightarrow> (popup \<times> world) outcome"
where
  "renderFieldData_entry env fd formFactor entry s =
     (case (entry, s) of ((i, data), (p, w)) \<Rightarrow>
        (case property_of (this_metrics p) i of
           Absent \<Rightarrow> Done (p, w)
         | Inherited \<Rightarrow> Threw TypeError (p, w)
         | Own m0 \<Rightarrow>
             let m = m0\<lparr>m_distribution := Some data\<rparr>;
                 p' = p\<lparr>this_metrics := AList.update i m (this_metrics p)\<rparr>
             in (case querySelector (metric_id (m_kind m)) w of
                   None \<Rightarrow> Threw TypeError (p', w)
                 | Some _ \<Rightarrow>
                     let w1 = w\<lparr>doc_metrics :=
                                  update_first (metric_id (m_kind m))
                                    (\<lambda>e. e\<lparr>el_marginLeft := getRelativePosition env m (m_local m),
                                           el_ratingText :=
                                             map (\<lambda>j. getDensity m j (defaultPrecision env)) [0, 1, 2],
                                           el_ratingWidth := map (\<lambda>j. getDensity m j 2) [0, 1, 2],
                                           el_minRatingWidth := Some (MIN_PCT env * 100)\<rparr>)
                                    (doc_metrics w)\<rparr>
                     in Done (p', setHovercardText env m (Some (fd, formFactor))
                                    (setDevice formFactor w1)))))"

fun forEach :: "('x \<Rightarrow> 's \<Rightarrow> 's outcome) \<Rightarrow> 'x list \<Rightarrow> 's \<Rightarrow> 's outcome" where
  "forEach f [] s = Done s"
| "forEach f (x # xs) s =
     (case f x s of Done s' \<Rightarrow> forEach f xs s' | Threw e s' \<Rightarrow> Threw e s')"

text \<open>
  The first statement of \<^verbatim>\<open>renderFieldData\<close>: status line and page, by the scope of the
  field data.
\<close>

definition renderFieldData_scope :: "fieldData \<Rightarrow> form_factor \<Rightarrow> world \<Rightarrow> world" where
  "renderFieldData_scope fd formFactor w =
     (if isOriginFallback fd
      then setPage (getOrigin fd)
             (setStatus
                (StatusFragment
                   (''Page-level field data is not available<br>Comparing local metrics to <strong>origin-level ''
                      @ toLowerCase formFactor @ '' field data</strong> instead'')) w)
      else let w' = setStatus (StatusText (''Local metrics compared to ''
                                 @ toLowerCase formFactor @ '' field data'')) w;
               normalizedUrl = getNormalizedUrl fd
           in if normalizedUrl \<noteq> [] then setPage normalizedUrl w' else w')"

definition renderFieldData ::
  "env \<Rightarrow> fieldData \<Rightarrow> form_factor \<Rightarrow> popup \<times> world \<Rightarrow> (popup \<times> world) outcome" where
  "renderFieldData env fd formFactor s =
     (case s of (p, w) \<Rightarrow>
        forEach (renderFieldData_entry env fd formFactor) (getMetrics fd)
          (p, renderFieldData_scope fd formFactor w))"

text \<open>
  \<^verbatim>\<open>initFieldData\<close> issues the one call of \<^verbatim>\<open>CrUX.load\<close>; the promise it returns is settled
  later, with field data or with a rejection.
\<close>

definition initFieldData :: "popup \<times> world \<Rightarrow> popup \<times> world" where
  "initFieldData s =
     (case s of (p, w) \<Rightarrow>
        (p, w\<lparr>crux_loads := crux_loads w @ [(this_url p, formFactorOf p)]\<rparr>))"

definition localMetricsOnly :: status_content where
  "localMetricsOnly = StatusText ''Local metrics only (field data unavailable)''"

text \<open>
  The callbacks \<^verbatim>\<open>.then(fieldData => ...)\<close> and \<^verbatim>\<open>.catch(() => ...)\<close> of \<^verbatim>\<open>initFieldData\<close>:
  the second also runs when the first throws, on the state the first left behind.
\<close>

definition initFieldData_settled ::
  "env \<Rightarrow> field_error + fieldData \<Rightarrow> popup \<times> world \<Rightarrow> popup \<times> world" where
  "initFieldData_settled env result s =
     (let formFactor = formFactorOf (fst s);
          catch = (\<lambda>s. (fst s, setStatus localMetricsOnly (snd s)))
      in case result of
           Inl _ \<Rightarrow> catch s
         | Inr fieldData \<Rightarrow>
             (case renderFieldData env fieldData formFactor s of
                Done s' \<Rightarrow> s'
              | Threw _ s' \<Rightarrow> catch s'))"

subsection \<open>Construction\<close>

definition initStatus :: "world \<Rightarrow> world" where
  "initStatus w = setStatus (StatusText (''Loading field data'' @ ellipsis)) w"

definition initPage :: "popup \<Rightarrow> world \<Rightarrow> world" where
  "initPage p w = setPage (this_url p) w"

definition initTimestamp :: "popup \<Rightarrow> world \<Rightarrow> world" where
  "initTimestamp p w = w\<lparr>doc_timestamp := this_timestamp p\<rparr>"

definition init :: "env \<Rightarrow> popup \<times> world \<Rightarrow> (popup \<times> world) outcome" where
  "init env s =
     (case s of (p, w) \<Rightarrow>
        and_then (initMetrics env (p, initTimestamp p (initPage p (initStatus w))))
          (\<lambda>s. Done (initFieldData s)))"

text \<open>
  The constructor. As \<^verbatim>\<open>error\<close>, a value is truthy when it is a non-empty string. The
  result holds the object's fields, or \<open>None\<close> when none was assigned.
\<close>

definition Popup :: "env \<Rightarrow> input \<Rightarrow> world \<Rightarrow> (popup option \<times> world) outcome" where
  "Popup env inp w =
     (case in_error inp of
        Some (c # cs) \<Rightarrow>
          Done (None, setStatus (StatusText (''Web Vitals are unavailable for this page.''
                                    @ newline @ (c # cs))) w)
      | _ \<Rightarrow>
          (case in_metrics inp of
             None \<Rightarrow> Threw TypeError (None, w)
           | Some metrics \<Rightarrow>
               map_outcome (\<lambda>s. (Some (fst s), snd s))
                 (init env
                    (\<lparr>this_timestamp = toLocaleTimeString env (lm_timestamp metrics),
                      this__metrics = lm_samples metrics,
                      this_background = in_background inp,
                      this_options = in_options inp,
                      this_metrics = [],
                      this_url = in_url inp\<rparr>, w))))"

subsection \<open>A popup lifetime\<close>

fun state_of :: "'a outcome \<Rightarrow> 'a" where
  "state_of (Done s) = s"
| "state_of (Threw e s) = s"

text \<open>
  Construction followed by the settlement of the field-data promise. When the
  constructor returned early or threw, \<^verbatim>\<open>initFieldData\<close> never ran and there is no promise.
\<close>

definition Popup_lifetime ::
  "env \<Rightarrow> input \<Rightarrow> field_error + fieldData \<Rightarrow> world \<Rightarrow> (popup option \<times> world) outcome" where
  "Popup_lifetime env inp result w =
     (case Popup env inp w of
        Done (Some p, w1) \<Rightarrow>
          (case initFieldData_settled env result (p, w1) of (p', w') \<Rightarrow> Done (Some p', w'))
      | r \<Rightarrow> r)"

definition metric_of :: "string \<Rightarrow> popup option \<times> world \<Rightarrow> metric option" where
  "metric_of i s = (case fst s of None \<Rightarrow> None | Some p \<Rightarrow> map_of (this_metrics p) i)"

text \<open>
  The specification's coordinator has the states Idle, FetchingField, Reconciled and
  FieldUnavailable. \<^verbatim>\<open>popup.js\<close> keeps no variable for them; the state is read off the
  document: no call of \<^verbatim>\<open>CrUX.load\<close> yet, the status line \<^verbatim>\<open>initStatus\<close> writes, the status
  line the \<^verbatim>\<open>catch\<close> callback writes, or another status line.
\<close>

datatype coordinator = Idle | FetchingField | Reconciled | FieldUnavailable

definition coordinator_state :: "world \<Rightarrow> coordinator" where
  "coordinator_state w =
     (if crux_loads w = [] then Idle
      else if doc_status w = StatusText (''Loading field data'' @ ellipsis) then FetchingField
      else if doc_status w = localMetricsOnly then FieldUnavailable
      else Reconciled)"

text \<open>
  The ids of the metric elements in the document, and the invariant that every Metric of
  the popup has its element there. \<^verbatim>\<open>initMetrics\<close> establishes it and \<^verbatim>\<open>renderFieldData\<close>
  keeps it; under it no element lookup of \<^verbatim>\<open>renderFieldData\<close> yields \<^verbatim>\<open>null\<close>.
\<close>

definition element_ids :: "world \<Rightarrow> string list" where
  "element_ids w = map el_id (doc_metrics w)"

definition rendered :: "popup \<times> world \<Rightarrow> bool" where
  "rendered s =
     list_all (\<lambda>(i, m). metric_id (m_kind m) \<in> set (element_ids (snd s))) (this_metrics (fst s))"

text \<open>
  What one entry \<^verbatim>\<open>{id, data}\<close> of the payload does to \<^verbatim>\<open>this.metrics\<close> when the callback of
  \<^verbatim>\<open>renderFieldData\<close> completes: the Metric under that id, if there is one, gets the
  distribution.
\<close>

definition attach :: "string \<times> real list \<Rightarrow> (string \<times> metric) list \<Rightarrow> (string \<times> metric) list" where
  "attach x ms =
     (case map_of ms (fst x) of
        None \<Rightarrow> ms
      | Some m0 \<Rightarrow> AList.update (fst x) (m0\<lparr>m_distribution := Some (snd x)\<rparr>) ms)"

subsection \<open>Example values\<close>

definition example_env :: env where
  "example_env =
     \<lparr>toLocaleTimeString = (\<lambda>_. ''12:00:00''),
      MetricThresholds = (\<lambda>_. \<lparr>goodBound = 2500, poorBound = 4000, scaleMax = 5000\<rparr>),
      metric_name = abbr,
      formatValue = (\<lambda>_ _. ''1.8 s''),
      getInfo = (\<lambda>_. None),
      MIN_PCT = 1 / 100,
      defaultPrecision = 0\<rparr>"

definition example_world :: world where
  "example_world =
     \<lparr>doc_status = StatusText [], doc_page = [], doc_timestamp = [], doc_metrics = [],
      doc_device = [], crux_loads = []\<rparr>"

definition example_sample :: sample where
  "example_sample = \<lparr>s_value = 1800, s_rating = Some Good\<rparr>"

definition example_input :: input where
  "example_input =
     \<lparr>in_metrics =
        Some \<lparr>lm_timestamp = 0,
              lm_samples = [''lcp'' \<mapsto> example_sample, ''cls'' \<mapsto> example_sample,
                            ''inp'' \<mapsto> example_sample, ''fcp'' \<mapsto> example_sample,
                            ''ttfb'' \<mapsto> example_sample]\<rparr>,
      in_background = False,
      in_options = \<lparr>preferPhoneField = False\<rparr>,
      in_url = ''https://example.com/a?b=1'',
      in_error = None\<rparr>"

definition example_error_input :: input where
  "example_error_input =
     \<lparr>in_metrics = None, in_background = False,
      in_options = \<lparr>preferPhoneField = False\<rparr>,
      in_url = ''https://example.com/a?b=1'',
      in_error = Some ''No data''\<rparr>"

definition example_popup :: popup where
  "example_popup =
     \<lparr>this_timestamp = ''12:00:00'',
      this__metrics = [''lcp'' \<mapsto> example_sample, ''cls'' \<mapsto> example_sample,
                       ''inp'' \<mapsto> example_sample, ''fcp'' \<mapsto> example_sample,
                       ''ttfb'' \<mapsto> example_sample],
      this_background = False,
      this_options = \<lparr>preferPhoneField = False\<rparr>,
      this_metrics =
        [(''lcp'', new_Metric LCP 1800 (Some Good) False),
         (''cls'', new_Metric CLS 1800 (Some Good) False),
         (''inp'', new_Metric INP 1800 (Some Good) False),
         (''fcp'', new_Metric FCP 1800 (Some Good) False),
         (''ttfb'', new_Metric TTFB 1800 (Some Good) False)],
      this_url = ''https://example.com/a?b=1''\<rparr>"

definition example_world1 :: world where
  "example_world1 = snd (state_of (Popup example_env example_input example_world))"

text \<open>
  A page-level response with a distribution whose fractions sum to 2.7, a kind the
  popup has no Metric for, and a well-formed distribution.
\<close>

definition example_fieldData :: fieldData where
  "example_fieldData =
     \<lparr>fd_scope = PageScope,
      fd_url = ''https://example.com/a'',
      fd_metrics = [(''lcp'', [9 / 10, 9 / 10, 9 / 10]),
                    (''round_trip_time'', [1, 0, 0]),
                    (''cls'', [62 / 100, 25 / 100, 13 / 100])],
      fd_formFactor = DESKTOP\<rparr>"

text \<open>
  A page-level response whose first id names a member of \<^verbatim>\<open>Object.prototype\<close>, and one
  with an entry for INP.
\<close>

definition prototype_fieldData :: fieldData where
  "prototype_fieldData =
     \<lparr>fd_scope = PageScope,
      fd_url = ''https://example.com/a'',
      fd_metrics = [(''constructor'', [1, 0, 0]),
                    (''cls'', [62 / 100, 25 / 100, 13 / 100])],
      fd_formFactor = DESKTOP\<rparr>"

definition inp_fieldData :: fieldData where
  "inp_fieldData =
     \<lparr>fd_scope = PageScope,
      fd_url = ''https://example.com/a'',
      fd_metrics = [(''inp'', [50 / 100, 30 / 100, 20 / 100])],
      fd_formFactor = DESKTOP\<rparr>"

text \<open>An API that has no page-level record and an origin-level one.\<close>

definition example_api :: "request \<Rightarrow> response" where
  "example_api r =
     (case r of
        PageRequest u f \<Rightarrow> NotFound
      | OriginRequest u f \<Rightarrow> Record u [(''cls'', [62 / 100, 25 / 100, 13 / 100])])"

text \<open>An API that has neither.\<close>

definition empty_api :: "request \<Rightarrow> response" where
  "empty_api r = NotFound"

section \<open>Properties of the Metric value object\<close>

text \<open>
  \<^verbatim>\<open>toFixed\<close> writes the multiple of \<open>10\<^sup>-\<^sup>p\<close> nearest to a non-negative number, and
  \<^verbatim>\<open>show_nat\<close> writes decimal digits only.
\<close>

lemma round_half_up_near:
  fixes y :: real
  assumes "0 \<le> y"
  shows "\<bar>real (nat \<lfloor>y + 1 / 2\<rfloor>) - y\<bar> \<le> 1 / 2"
proof -
  have "0 \<le> \<lfloor>y + 1 / 2\<rfloor>" using assms by simp
  then have "real (nat \<lfloor>y + 1 / 2\<rfloor>) = of_int \<lfloor>y + 1 / 2\<rfloor>" by simp
  then show ?thesis by linarith
qed

lemma toFixed_nearest:
  assumes "0 \<le> x"
  shows "\<exists>n. toFixed x p =
               show_nat (n div 10 ^ p) @
               (if p = 0 then []
                else ''.'' @ replicate (p - length (show_nat (n mod 10 ^ p))) (CHR ''0'')
                       @ show_nat (n mod 10 ^ p)) \<and>
             \<bar>real n / 10 ^ p - x\<bar> \<le> 1 / (2 * 10 ^ p)"
proof -
  define n where "n = nat \<lfloor>\<bar>x\<bar> * 10 ^ p + 1 / 2\<rfloor>"
  have h: "\<bar>real n - x * 10 ^ p\<bar> \<le> 1 / 2"
    unfolding n_def using round_half_up_near [of "x * 10 ^ p"] assms by simp
  have e: "real n / 10 ^ p - x = (real n - x * 10 ^ p) / 10 ^ p"
    by (simp add: diff_divide_distrib)
  have "\<bar>real n / 10 ^ p - x\<bar> = \<bar>real n - x * 10 ^ p\<bar> / 10 ^ p"
    unfolding e by (simp add: abs_divide)
  also from h have "\<dots> \<le> (1 / 2) / 10 ^ p"
    by (rule divide_right_mono) simp
  also have "\<dots> = 1 / (2 * 10 ^ p)"
    by simp
  finally have "\<bar>real n / 10 ^ p - x\<bar> \<le> 1 / (2 * 10 ^ p)" .
  moreover have "toFixed x p =
               show_nat (n div 10 ^ p) @
               (if p = 0 then []
                else ''.'' @ replicate (p - length (show_nat (n mod 10 ^ p))) (CHR ''0'')
                       @ show_nat (n mod 10 ^ p))"
    using assms by (simp add: toFixed_def n_def Let_def)
  ultimately show ?thesis by blast
qed

lemma show_nat_digits: "set (show_nat n) \<subseteq> set ''0123456789''"
proof (induction n rule: show_nat.induct)
  case (1 n)
  have d: "digit k \<in> set ''0123456789''" if "k < 10" for k
    using that unfolding digit_def by (intro nth_mem) simp
  show ?case
  proof (cases "n < 10")
    case True
    then show ?thesis using d [of n] by (subst show_nat.simps) simp
  next
    case False
    with 1 d [of "n mod 10"] show ?thesis
      by (subst show_nat.simps) simp
  qed
qed


text \<open>
  C1. For every metric kind \<open>k\<close> of a threshold table \<open>T\<close> whose good bound does not exceed
  its poor bound, and every finite non-negative value \<open>v\<close>: \<open>v\<close> is rated good when it is
  strictly below the good bound, needs-improvement when it is at or above the good bound
  and strictly below the poor bound, and poor when it is at or above the poor bound. A
  local LCP of 1800 under the bounds 2500 and 4000 is rated good.
\<close>

theorem rating_by_thresholds:
  assumes "0 \<le> v" and "goodBound (T k) \<le> poorBound (T k)"
  shows "(v < goodBound (T k) \<longrightarrow> rating (T k) v = Inr Good) \<and>
         (goodBound (T k) \<le> v \<and> v < poorBound (T k) \<longrightarrow> rating (T k) v = Inr NeedsImprovement) \<and>
         (poorBound (T k) \<le> v \<longrightarrow> rating (T k) v = Inr Poor) \<and>
         rating \<lparr>goodBound = 2500, poorBound = 4000, scaleMax = mx\<rparr> 1800 = Inr Good"
  using assms by (simp add: rating_def)

theorem rating_by_thresholds_witness:
  "(0::real) \<le> 3000 \<and>
   rating \<lparr>goodBound = 2500, poorBound = 4000, scaleMax = 5000\<rparr> 3000 = Inr NeedsImprovement \<and>
   rating \<lparr>goodBound = 2500, poorBound = 4000, scaleMax = 5000\<rparr> 1800 = Inr Good"
  using rating_by_thresholds
    [of 3000 "\<lambda>_. \<lparr>goodBound = 2500, poorBound = 4000, scaleMax = 5000\<rparr>" LCP 5000]
  by simp

text \<open>
  C8. For every metric kind \<open>k\<close> of a threshold table \<open>T\<close> with a positive scale maximum,
  the relative position never decreases when the value grows, lies in \<open>[0,1]\<close>, and is
  exactly 1 for every value at or beyond the scale maximum.
\<close>

theorem relativePosition_monotone_clamped:
  assumes "0 < scaleMax (T k)"
  shows "(v \<le> w \<longrightarrow> relativePosition (T k) v \<le> relativePosition (T k) w) \<and>
         0 \<le> relativePosition (T k) v \<and> relativePosition (T k) v \<le> 1 \<and>
         (scaleMax (T k) \<le> v \<longrightarrow> relativePosition (T k) v = 1)"
proof -
  have mono: "v \<le> w \<Longrightarrow> v / scaleMax (T k) \<le> w / scaleMax (T k)"
    using assms by (simp add: divide_right_mono)
  have top: "scaleMax (T k) \<le> v \<Longrightarrow> 1 \<le> v / scaleMax (T k)"
    using assms by simp
  show ?thesis
    unfolding relativePosition_def using mono top by (auto simp: min_def max_def)
qed

theorem relativePosition_monotone_clamped_witness:
  "(0::real) < 5000 \<and>
   relativePosition \<lparr>goodBound = 2500, poorBound = 4000, scaleMax = 5000\<rparr> 1800
     \<le> relativePosition \<lparr>goodBound = 2500, poorBound = 4000, scaleMax = 5000\<rparr> 6000 \<and>
   relativePosition \<lparr>goodBound = 2500, poorBound = 4000, scaleMax = 5000\<rparr> 6000 = 1"
  using relativePosition_monotone_clamped
    [of "\<lambda>_. \<lparr>goodBound = 2500, poorBound = 4000, scaleMax = 5000\<rparr>" LCP 1800 6000]
    relativePosition_monotone_clamped
    [of "\<lambda>_. \<lparr>goodBound = 2500, poorBound = 4000, scaleMax = 5000\<rparr>" LCP 6000 6000]
  by simp

text \<open>
  C5. For a Metric with a distribution attached, the density of a bucket at a precision
  is the bucket's fraction, times 100, written with that many decimals and a percent
  sign; for a non-negative fraction the number written is within half a unit of the last
  decimal of the percentage. With no distribution attached the density is the sentinel.
  For the CLS distribution 0.62, 0.25, 0.13 and the local rating needs-improvement, the
  density of the assessment bucket at precision 0 is \<open>25%\<close>.
\<close>

theorem getDensity_percentage:
  "(m_distribution m = None \<longrightarrow> getDensity m i p = Unavailable) \<and>
   (m_distribution m = Some d \<and> i < length d \<longrightarrow>
      getDensity m i p = Percentage (toFixed (d ! i * 100) p @ ''%'')) \<and>
   (m_distribution m = Some d \<and> i < length d \<and> 0 \<le> d ! i \<longrightarrow>
      (\<exists>n. getDensity m i p =
              Percentage
                (show_nat (n div 10 ^ p) @
                 (if p = 0 then []
                  else ''.'' @ replicate (p - length (show_nat (n mod 10 ^ p))) (CHR ''0'')
                         @ show_nat (n mod 10 ^ p)) @ ''%'') \<and>
            \<bar>real n / 10 ^ p - d ! i * 100\<bar> \<le> 1 / (2 * 10 ^ p))) \<and>
   getDensity
     ((new_Metric CLS v (Some NeedsImprovement) b)
        \<lparr>m_distribution := Some [62 / 100, 25 / 100, 13 / 100]\<rparr>)
     (assessmentIndex NeedsImprovement) 0 = Percentage ''25%''"
proof -
  have a: "m_distribution m = None \<Longrightarrow> getDensity m i p = Unavailable"
    by (simp add: getDensity_def)
  have b: "getDensity m i p = Percentage (toFixed (d ! i * 100) p @ ''%'')"
    if "m_distribution m = Some d" and "i < length d"
    using that by (simp add: getDensity_def)
  have c: "\<exists>n. getDensity m i p =
              Percentage
                (show_nat (n div 10 ^ p) @
                 (if p = 0 then []
                  else ''.'' @ replicate (p - length (show_nat (n mod 10 ^ p))) (CHR ''0'')
                         @ show_nat (n mod 10 ^ p)) @ ''%'') \<and>
            \<bar>real n / 10 ^ p - d ! i * 100\<bar> \<le> 1 / (2 * 10 ^ p)"
    if "m_distribution m = Some d" and "i < length d" and "0 \<le> d ! i"
  proof -
    from that(3) have "0 \<le> d ! i * 100" by simp
    from toFixed_nearest [OF this, of p] b [OF that(1,2)] show ?thesis
      by auto
  qed
  have e: "getDensity
     ((new_Metric CLS v (Some NeedsImprovement) b)
        \<lparr>m_distribution := Some [62 / 100, 25 / 100, 13 / 100]\<rparr>)
     (assessmentIndex NeedsImprovement) 0 = Percentage ''25%''"
    by (simp add: getDensity_def new_Metric_def toFixed_def show_nat.simps digit_def)
  from a b c e show ?thesis
    by blast
qed

theorem getDensity_percentage_witness:
  "getDensity (new_Metric CLS (15 / 100) (Some NeedsImprovement) False) 1 0 = Unavailable \<and>
   getDensity
     ((new_Metric CLS (15 / 100) (Some NeedsImprovement) False)
        \<lparr>m_distribution := Some [62 / 100, 25 / 100, 13 / 100]\<rparr>) 0 2
     = Percentage ''62.00%''"
  using getDensity_percentage
    [of "new_Metric CLS (15 / 100) (Some NeedsImprovement) False" 1 0]
    getDensity_percentage
    [of "(new_Metric CLS (15 / 100) (Some NeedsImprovement) False)
           \<lparr>m_distribution := Some [62 / 100, 25 / 100, 13 / 100]\<rparr>" 0 2
        "[62 / 100, 25 / 100, 13 / 100]"]
  by (simp add: new_Metric_def toFixed_def show_nat.simps digit_def)

section \<open>The popup: construction\<close>

lemma and_then_Done: "and_then x f = Done s \<longleftrightarrow> (\<exists>s'. x = Done s' \<and> f s' = Done s)"
  by (cases x) auto

lemma map_outcome_Done: "map_outcome f x = Done s \<longleftrightarrow> (\<exists>s'. x = Done s' \<and> s = f s')"
  by (cases x) auto

lemma create_Done:
  "create k (p, w) = Done s \<longleftrightarrow>
     (\<exists>smp. this__metrics p (metric_id k) = Some smp \<and>
        s = (p\<lparr>this_metrics :=
                  AList.update (metric_id k)
                    (new_Metric k (s_value smp) (s_rating smp) (this_background p))
                    (this_metrics p)\<rparr>, w))"
  by (auto simp: create_def split: option.splits)

lemma querySelector_None: "querySelector i w = None \<longleftrightarrow> i \<notin> set (element_ids w)"
  by (auto simp: querySelector_def element_ids_def find_None_iff)

lemma map_el_id_update_first:
  "(\<And>e. el_id (f e) = el_id e) \<Longrightarrow> map el_id (update_first i f es) = map el_id es"
  by (induction es) auto

lemma element_ids_setHovercardText [simp]:
  "element_ids (setHovercardText env m field w) = element_ids w"
  by (simp add: setHovercardText_def element_ids_def map_el_id_update_first)

lemma element_ids_renderMetric [simp]:
  "element_ids (renderMetric env m w) = element_ids w @ [metric_id (m_kind m)]"
  by (simp add: renderMetric_def Let_def) (simp add: element_ids_def)

lemma element_ids_crux_loads [simp]: "element_ids (w\<lparr>crux_loads := x\<rparr>) = element_ids w"
  by (simp add: element_ids_def)

lemma crux_loads_setHovercardText [simp]:
  "crux_loads (setHovercardText env m field w) = crux_loads w"
  by (simp add: setHovercardText_def)

lemma crux_loads_renderMetric [simp]: "crux_loads (renderMetric env m w) = crux_loads w"
  by (simp add: renderMetric_def Let_def)

text \<open>
  When \<^verbatim>\<open>initMetrics\<close> completes on a popup without metrics, all five samples were there
  and the five Metrics were created and rendered, in the order of the source.
\<close>

lemma initMetrics_Done:
  assumes "initMetrics env (p, w) = Done (p', w')" and "this_metrics p = []"
  shows "\<exists>a b c d e.
           this__metrics p ''lcp'' = Some a \<and> this__metrics p ''cls'' = Some b \<and>
           this__metrics p ''inp'' = Some c \<and> this__metrics p ''fcp'' = Some d \<and>
           this__metrics p ''ttfb'' = Some e \<and>
           p' = p\<lparr>this_metrics :=
                    [(''lcp'', new_Metric LCP (s_value a) (s_rating a) (this_background p)),
                     (''cls'', new_Metric CLS (s_value b) (s_rating b) (this_background p)),
                     (''inp'', new_Metric INP (s_value c) (s_rating c) (this_background p)),
                     (''fcp'', new_Metric FCP (s_value d) (s_rating d) (this_background p)),
                     (''ttfb'', new_Metric TTFB (s_value e) (s_rating e) (this_background p))]\<rparr> \<and>
           w' = fold (renderMetric env) (map snd (this_metrics p')) w"
  using assms
  by (auto simp: initMetrics_def and_then_Done create_Done renderMetrics_def)

text \<open>A construction that completes with fields assigned: the state it leaves.\<close>

lemma Popup_Done:
  assumes "Popup env inp w = Done (Some p, w1)"
  shows "\<exists>lm a b c d e.
           in_metrics inp = Some lm \<and>
           lm_samples lm ''lcp'' = Some a \<and> lm_samples lm ''cls'' = Some b \<and>
           lm_samples lm ''inp'' = Some c \<and> lm_samples lm ''fcp'' = Some d \<and>
           lm_samples lm ''ttfb'' = Some e \<and>
           p = \<lparr>this_timestamp = toLocaleTimeString env (lm_timestamp lm),
                this__metrics = lm_samples lm,
                this_background = in_background inp,
                this_options = in_options inp,
                this_metrics =
                  [(''lcp'', new_Metric LCP (s_value a) (s_rating a) (in_background inp)),
                   (''cls'', new_Metric CLS (s_value b) (s_rating b) (in_background inp)),
                   (''inp'', new_Metric INP (s_value c) (s_rating c) (in_background inp)),
                   (''fcp'', new_Metric FCP (s_value d) (s_rating d) (in_background inp)),
                   (''ttfb'', new_Metric TTFB (s_value e) (s_rating e) (in_background inp))],
                this_url = in_url inp\<rparr> \<and>
           w1 = (fold (renderMetric env) (map snd (this_metrics p))
                   (initTimestamp p (initPage p (initStatus w))))
                \<lparr>crux_loads := crux_loads w @ [(in_url inp, formFactorOf p)]\<rparr>"
proof -
  from assms obtain lm where lm: "in_metrics inp = Some lm"
    by (auto simp: Popup_def split: option.splits list.splits)
  define p0 where
    "p0 = \<lparr>this_timestamp = toLocaleTimeString env (lm_timestamp lm),
           this__metrics = lm_samples lm,
           this_background = in_background inp,
           this_options = in_options inp,
           this_metrics = [],
           this_url = in_url inp\<rparr>"
  from assms lm have "init env (p0, w) = Done (p, w1)"
    by (auto simp: Popup_def p0_def map_outcome_Done split: option.splits list.splits)
  then obtain p' w' where
    im: "initMetrics env (p0, initTimestamp p0 (initPage p0 (initStatus w))) = Done (p', w')"
    and fin: "(p, w1) = initFieldData (p', w')"
    by (auto simp: init_def and_then_Done)
  have e: "this_metrics p0 = []"
    by (simp add: p0_def)
  from initMetrics_Done [OF im e] fin lm show ?thesis
    by (clarsimp simp: initFieldData_def p0_def formFactorOf_def initTimestamp_def
        initPage_def setPage_def initStatus_def setStatus_def)
qed

lemma Popup_Done_rendered:
  assumes "Popup env inp w = Done (Some p, w1)"
  shows "rendered (p, w1)"
  using Popup_Done [OF assms] by (clarsimp simp: rendered_def new_Metric_def)

lemma doc_status_renderMetric [simp]: "doc_status (renderMetric env m w) = doc_status w"
  by (simp add: renderMetric_def setHovercardText_def Let_def)

lemma Popup_Done_fetching:
  assumes "Popup env inp w = Done (Some p, w1)"
  shows "coordinator_state w1 = FetchingField"
  using Popup_Done [OF assms]
  by (clarsimp simp: coordinator_state_def initTimestamp_def initPage_def setPage_def
      initStatus_def setStatus_def)

lemma example_run:
  "Popup example_env example_input example_world = Done (Some example_popup, example_world1)"
  by (simp add: example_world1_def example_popup_def Popup_def example_input_def init_def
      initMetrics_def create_def renderMetrics_def initFieldData_def example_sample_def
      example_env_def)

section \<open>The popup: field data\<close>

lemma property_of_Own: "property_of obj k = Own v \<longleftrightarrow> map_of obj k = Some v"
  by (simp add: property_of_def split: option.splits)

lemma property_of_Absent:
  "property_of obj k = Absent \<longleftrightarrow> k \<notin> set (map fst obj) \<and> k \<notin> set Object_prototype"
proof (cases "map_of obj k")
  case None
  then have "k \<notin> fst ` set obj"
    by (simp add: map_of_eq_None_iff)
  with None show ?thesis
    by (simp add: property_of_def)
next
  case (Some v)
  then have "k \<in> fst ` set obj"
    using map_of_SomeD [OF Some] by force
  with Some show ?thesis
    by (simp add: property_of_def)
qed

lemma entry_unsupported:
  "map_of (this_metrics p) i = None \<Longrightarrow> i \<notin> set Object_prototype \<Longrightarrow>
     renderFieldData_entry env fd ff (i, d) (p, w) = Done (p, w)"
  by (simp add: renderFieldData_entry_def property_of_def)

lemma entry_inherited:
  "map_of (this_metrics p) i = None \<Longrightarrow> i \<in> set Object_prototype \<Longrightarrow>
     renderFieldData_entry env fd ff (i, d) (p, w) = Threw TypeError (p, w)"
  by (simp add: renderFieldData_entry_def property_of_def)

lemma rendered_lookup:
  "rendered (p, w) \<Longrightarrow> map_of (this_metrics p) i = Some m \<Longrightarrow>
     querySelector (metric_id (m_kind m)) w \<noteq> None"
  by (auto simp: rendered_def querySelector_None list_all_iff dest!: map_of_SomeD)

lemma entry_supported:
  assumes "rendered (p, w)" and "map_of (this_metrics p) i = Some m0"
  shows "\<exists>w'. renderFieldData_entry env fd ff (i, d) (p, w) =
           Done (p\<lparr>this_metrics :=
                     AList.update i (m0\<lparr>m_distribution := Some d\<rparr>) (this_metrics p)\<rparr>, w') \<and>
           element_ids w' = element_ids w \<and> doc_page w' = doc_page w \<and>
           doc_status w' = doc_status w \<and> crux_loads w' = crux_loads w"
proof -
  have own: "property_of (this_metrics p) i = Own m0"
    using assms(2) by (simp add: property_of_Own)
  from rendered_lookup [OF assms] show ?thesis
    by (auto simp: renderFieldData_entry_def own Let_def setHovercardText_def
        setDevice_def element_ids_def map_el_id_update_first)
qed

lemma set_update_subset: "set (AList.update k v al) \<subseteq> insert (k, v) (set al)"
  by (induction al) auto

lemma rendered_update:
  assumes "rendered (p, w)" and "map_of (this_metrics p) i = Some m0"
    and "element_ids w' = element_ids w" and "m_kind m = m_kind m0"
  shows "rendered (p\<lparr>this_metrics := AList.update i m (this_metrics p)\<rparr>, w')"
proof -
  have "metric_id (m_kind m0) \<in> set (element_ids w)"
    using rendered_lookup [OF assms(1,2)] by (simp add: querySelector_None)
  moreover have
    "set (AList.update i m (this_metrics p)) \<subseteq> insert (i, m) (set (this_metrics p))"
    by (rule set_update_subset)
  ultimately show ?thesis
    using assms by (auto simp: rendered_def list_all_iff)
qed

text \<open>
  Under the invariant, an entry of the payload whose id names no member of
  \<^verbatim>\<open>Object.prototype\<close> is processed without an exception; the invariant, the keys of
  \<^verbatim>\<open>this.metrics\<close>, the page, the status and the calls of \<^verbatim>\<open>CrUX.load\<close> stay as they are.
\<close>

lemma entry_Done:
  assumes "rendered (p, w)" and "fst x \<notin> set Object_prototype"
  shows "\<exists>w'. renderFieldData_entry env fd ff x (p, w) =
                 Done (p\<lparr>this_metrics := attach x (this_metrics p)\<rparr>, w') \<and>
           rendered (p\<lparr>this_metrics := attach x (this_metrics p)\<rparr>, w') \<and>
           map fst (attach x (this_metrics p)) = map fst (this_metrics p) \<and>
           doc_page w' = doc_page w \<and> doc_status w' = doc_status w \<and>
           crux_loads w' = crux_loads w"
proof (cases x)
  case (Pair i d)
  show ?thesis
  proof (cases "map_of (this_metrics p) i")
    case None
    then show ?thesis using assms Pair by (simp add: entry_unsupported attach_def)
  next
    case (Some m0)
    from entry_supported [OF assms(1) Some, of env fd ff d] obtain w' where
      r: "renderFieldData_entry env fd ff (i, d) (p, w) =
           Done (p\<lparr>this_metrics :=
                     AList.update i (m0\<lparr>m_distribution := Some d\<rparr>) (this_metrics p)\<rparr>, w')"
      and w': "element_ids w' = element_ids w" "doc_page w' = doc_page w"
        "doc_status w' = doc_status w" "crux_loads w' = crux_loads w"
      by blast
    have k: "i \<in> fst ` set (this_metrics p)"
      using map_of_SomeD [OF Some] by force
    have "rendered (p\<lparr>this_metrics :=
                     AList.update i (m0\<lparr>m_distribution := Some d\<rparr>) (this_metrics p)\<rparr>, w')"
      by (rule rendered_update [OF assms(1) Some w'(1)]) simp
    then show ?thesis
      using r w' k Pair Some by (simp add: update_keys attach_def)
  qed
qed

lemma forEach_entries_Done:
  assumes "rendered (p, w)" and "list_all (\<lambda>x. fst x \<notin> set Object_prototype) es"
  shows "\<exists>w'. forEach (renderFieldData_entry env fd ff) es (p, w) =
                 Done (p\<lparr>this_metrics := fold attach es (this_metrics p)\<rparr>, w') \<and>
           rendered (p\<lparr>this_metrics := fold attach es (this_metrics p)\<rparr>, w') \<and>
           map fst (fold attach es (this_metrics p)) = map fst (this_metrics p) \<and>
           doc_page w' = doc_page w \<and> doc_status w' = doc_status w \<and>
           crux_loads w' = crux_loads w"
  using assms
proof (induction es arbitrary: p w)
  case Nil
  then show ?case by simp
next
  case (Cons x es)
  define p1 where "p1 = p\<lparr>this_metrics := attach x (this_metrics p)\<rparr>"
  from Cons.prems(2) have x: "fst x \<notin> set Object_prototype"
    and es: "list_all (\<lambda>x. fst x \<notin> set Object_prototype) es"
    by simp_all
  from entry_Done [OF Cons.prems(1) x, of env fd ff] obtain w1 where
    s: "renderFieldData_entry env fd ff x (p, w) = Done (p1, w1)" and r: "rendered (p1, w1)"
    and k: "map fst (this_metrics p1) = map fst (this_metrics p)"
      "doc_page w1 = doc_page w" "doc_status w1 = doc_status w" "crux_loads w1 = crux_loads w"
    unfolding p1_def by auto
  from Cons.IH [OF r es] obtain w' where
    "forEach (renderFieldData_entry env fd ff) es (p1, w1) =
       Done (p1\<lparr>this_metrics := fold attach es (this_metrics p1)\<rparr>, w')"
    "rendered (p1\<lparr>this_metrics := fold attach es (this_metrics p1)\<rparr>, w')"
    "map fst (fold attach es (this_metrics p1)) = map fst (this_metrics p1)"
    "doc_page w' = doc_page w1" "doc_status w' = doc_status w1" "crux_loads w' = crux_loads w1"
    by blast
  with s k show ?case
    by (simp add: p1_def)
qed

lemma entry_keys:
  "renderFieldData_entry env fd ff x (p, w) = Done (p', w') \<Longrightarrow>
     map fst (this_metrics p') = map fst (this_metrics p)"
proof (cases x)
  case (Pair i d)
  assume r: "renderFieldData_entry env fd ff x (p, w) = Done (p', w')"
  show ?thesis
  proof (cases "map_of (this_metrics p) i")
    case None
    with r Pair show ?thesis
      by (cases "i \<in> set Object_prototype") (simp_all add: entry_unsupported entry_inherited)
  next
    case (Some m0)
    have k: "i \<in> fst ` set (this_metrics p)"
      using map_of_SomeD [OF Some] by force
    have own: "property_of (this_metrics p) i = Own m0"
      using Some by (simp add: property_of_Own)
    from r Pair
    have "p' = p\<lparr>this_metrics :=
                    AList.update i (m0\<lparr>m_distribution := Some d\<rparr>) (this_metrics p)\<rparr>"
      by (auto simp: renderFieldData_entry_def own Let_def split: option.splits)
    then show ?thesis
      using k by (simp add: update_keys)
  qed
qed

text \<open>
  The loop over the payload does the same with and without the entries for which
  \<^verbatim>\<open>this.metrics[id]\<close> is \<^verbatim>\<open>undefined\<close>, whether or not an exception cuts it short.
\<close>

lemma forEach_entries_filter:
  "forEach (renderFieldData_entry env fd ff) es (p, w) =
     forEach (renderFieldData_entry env fd ff)
       (filter (\<lambda>x. property_of (this_metrics p) (fst x) \<noteq> Absent) es) (p, w)"
proof (induction es arbitrary: p w)
  case Nil
  show ?case by simp
next
  case (Cons x es)
  obtain i d where x: "x = (i, d)" by (cases x)
  show ?case
  proof (cases "property_of (this_metrics p) i = Absent")
    case True
    then have "renderFieldData_entry env fd ff (i, d) (p, w) = Done (p, w)"
      by (simp add: renderFieldData_entry_def)
    with True Cons.IH [of p w] show ?thesis
      by (simp add: x)
  next
    case False
    show ?thesis
    proof (cases "renderFieldData_entry env fd ff x (p, w)")
      case (Done s')
      obtain p' w' where s': "s' = (p', w')" by (cases s')
      from entry_keys [OF Done [unfolded s']]
      have K: "map fst (this_metrics p') = map fst (this_metrics p)" .
      have F: "filter (\<lambda>x. property_of (this_metrics p') (fst x) \<noteq> Absent) es =
               filter (\<lambda>x. property_of (this_metrics p) (fst x) \<noteq> Absent) es"
        by (simp only: property_of_Absent K)
      have "forEach (renderFieldData_entry env fd ff) es (p', w') =
              forEach (renderFieldData_entry env fd ff)
                (filter (\<lambda>x. property_of (this_metrics p) (fst x) \<noteq> Absent) es) (p', w')"
        using Cons.IH [of p' w'] unfolding F .
      with Done False show ?thesis
        by (simp add: x s')
    next
      case (Threw e s')
      with False show ?thesis by (simp add: x)
    qed
  qed
qed

lemma renderFieldData_scope_keeps [simp]:
  "element_ids (renderFieldData_scope fd ff w) = element_ids w"
  "crux_loads (renderFieldData_scope fd ff w) = crux_loads w"
  "doc_metrics (renderFieldData_scope fd ff w) = doc_metrics w"
  by (simp_all add: renderFieldData_scope_def setPage_def setStatus_def element_ids_def Let_def)

lemma entry_scope:
  "fd_scope fd' = fd_scope fd \<Longrightarrow>
     renderFieldData_entry env fd' ff = renderFieldData_entry env fd ff"
  by (intro ext)
    (simp add: renderFieldData_entry_def setHovercardText_def hovercardText_def
      isOriginFallback_def Let_def split: prod.splits option.splits property.splits)

text \<open>
  The callback never writes the page, and neither does the \<^verbatim>\<open>catch\<close> callback: once
  \<^verbatim>\<open>renderFieldData\<close> has run its first statement the page stays, whether or not the loop
  over the payload throws.
\<close>

lemma entry_doc_page:
  "doc_page (snd (state_of (renderFieldData_entry env fd ff x (p, w)))) = doc_page w"
  by (cases x)
    (simp add: renderFieldData_entry_def setHovercardText_def setDevice_def Let_def
      split: property.splits option.splits)

lemma forEach_doc_page:
  "doc_page (snd (state_of (forEach (renderFieldData_entry env fd ff) es (p, w)))) = doc_page w"
proof (induction es arbitrary: p w)
  case Nil
  show ?case by simp
next
  case (Cons x es)
  show ?case
  proof (cases "renderFieldData_entry env fd ff x (p, w)")
    case (Done s')
    obtain p' w' where s': "s' = (p', w')" by (cases s')
    from entry_doc_page [of env fd ff x p w] Done s' have "doc_page w' = doc_page w"
      by simp
    with Cons.IH [of p' w'] Done s' show ?thesis
      by simp
  next
    case (Threw e s')
    with entry_doc_page [of env fd ff x p w] show ?thesis
      by simp
  qed
qed

lemma settled_doc_page:
  "doc_page (snd (initFieldData_settled env (Inr fd) (p, w))) =
     doc_page (renderFieldData_scope fd (formFactorOf p) w)"
proof -
  let ?r = "forEach (renderFieldData_entry env fd (formFactorOf p)) (fd_metrics fd)
              (p, renderFieldData_scope fd (formFactorOf p) w)"
  have "doc_page (snd (initFieldData_settled env (Inr fd) (p, w))) = doc_page (snd (state_of ?r))"
    by (cases ?r)
      (simp_all add: initFieldData_settled_def renderFieldData_def getMetrics_def setStatus_def)
  then show ?thesis
    by (simp add: forEach_doc_page)
qed

text \<open>
  A successful response, none of whose ids names a member of \<^verbatim>\<open>Object.prototype\<close>, in a
  popup whose construction completed: every entry of the payload is processed, no
  exception reaches the \<^verbatim>\<open>catch\<close> callback, and \<^verbatim>\<open>this.metrics\<close> is what the entries make of
  it one after the other. Status line and page are those of \<^verbatim>\<open>renderFieldData\<close>'s first
  statement.
\<close>

lemma settled_success:
  assumes "rendered (p, w1)" and "list_all (\<lambda>x. fst x \<notin> set Object_prototype) (fd_metrics fd)"
  shows "\<exists>w'. initFieldData_settled env (Inr fd) (p, w1) =
                 (p\<lparr>this_metrics := fold attach (fd_metrics fd) (this_metrics p)\<rparr>, w') \<and>
           doc_status w' = doc_status (renderFieldData_scope fd (formFactorOf p) w1) \<and>
           doc_page w' = doc_page (renderFieldData_scope fd (formFactorOf p) w1) \<and>
           crux_loads w' = crux_loads w1"
proof -
  have "rendered (p, renderFieldData_scope fd (formFactorOf p) w1)"
    using assms(1) by (simp add: rendered_def)
  from forEach_entries_Done [OF this assms(2), of env fd "formFactorOf p"]
  show ?thesis
    by (auto simp: initFieldData_settled_def renderFieldData_def getMetrics_def)
qed

lemma lifetime_success:
  assumes "Popup env inp w = Done (Some p, w1)"
    and "list_all (\<lambda>x. fst x \<notin> set Object_prototype) (fd_metrics fd)"
  shows "\<exists>w'. Popup_lifetime env inp (Inr fd) w =
                 Done (Some (p\<lparr>this_metrics := fold attach (fd_metrics fd) (this_metrics p)\<rparr>), w') \<and>
           doc_status w' = doc_status (renderFieldData_scope fd (formFactorOf p) w1) \<and>
           doc_page w' = doc_page (renderFieldData_scope fd (formFactorOf p) w1) \<and>
           crux_loads w' = crux_loads w1"
  using settled_success [OF Popup_Done_rendered [OF assms(1)] assms(2), of env]
  by (auto simp: Popup_lifetime_def assms(1))

text \<open>
  An entry whose id names a member of \<^verbatim>\<open>Object.prototype\<close> ends the loop with a
  \<^verbatim>\<open>TypeError\<close>: the \<^verbatim>\<open>catch\<close> callback then writes its status line, and the entries after it
  are never processed.
\<close>

lemma settled_inherited_first:
  assumes "fd_metrics fd = (i, d) # es" and "map_of (this_metrics p) i = None"
    and "i \<in> set Object_prototype"
  shows "initFieldData_settled env (Inr fd) (p, w) =
           (p, (renderFieldData_scope fd (formFactorOf p) w)\<lparr>doc_status := localMetricsOnly\<rparr>)"
  using assms
  by (simp add: initFieldData_settled_def renderFieldData_def getMetrics_def entry_inherited
      setStatus_def)

lemma example_rendered: "rendered (example_popup, example_world1)"
  by (rule Popup_Done_rendered [OF example_run])

section \<open>Properties of the popup\<close>

text \<open>
  C10. For every construction input that carries a non-empty error, the constructor
  sets the status message and returns: the object has no field assigned (no timestamp,
  no metrics map, no url), and the document and the calls of \<^verbatim>\<open>CrUX.load\<close> are as before
  but for the status line, so no Metric was created or rendered and no field-data
  request was issued.
\<close>

theorem Popup_error_only_sets_status:
  assumes "in_error inp = Some e" and "e \<noteq> []"
  shows "Popup env inp w =
           Done (None, w\<lparr>doc_status :=
                           StatusText (''Web Vitals are unavailable for this page.''
                             @ newline @ e)\<rparr>)"
  using assms by (cases e) (simp_all add: Popup_def setStatus_def)

theorem Popup_error_only_sets_status_witness:
  "in_error example_error_input = Some ''No data'' \<and> ''No data'' \<noteq> [] \<and>
   Popup example_env example_error_input example_world =
     Done (None, example_world\<lparr>doc_status :=
              StatusText (''Web Vitals are unavailable for this page.'' @ newline @ ''No data'')\<rparr>) \<and>
   crux_loads (snd (state_of (Popup example_env example_error_input example_world))) = [] \<and>
   doc_metrics (snd (state_of (Popup example_env example_error_input example_world))) = []"
  using Popup_error_only_sets_status
    [of example_error_input "''No data''" example_env example_world]
  by (simp add: example_error_input_def example_world_def)

text \<open>
  C3. In every popup whose construction completed, the coordinator is in FetchingField;
  when the field-data promise is then rejected, with \<^verbatim>\<open>FieldDataUnavailable\<close> or with
  \<^verbatim>\<open>FieldDataTransportError\<close> (a timeout is a rejection of the second kind), it moves to
  FieldUnavailable: the status line becomes \<open>Local metrics only (field data unavailable)\<close>
  and nothing else changes. Every Metric is as \<^verbatim>\<open>initMetrics\<close> created it, with its local
  value and rating and no distribution, and the one call of \<^verbatim>\<open>CrUX.load\<close> issued by
  \<^verbatim>\<open>initFieldData\<close> is the only one of the lifetime.
\<close>

theorem field_failure_keeps_metrics_local:
  assumes "Popup env inp w = Done (Some p, w1)"
  shows "initFieldData_settled env (Inl e) (p, w1) = (p, w1\<lparr>doc_status := localMetricsOnly\<rparr>) \<and>
         coordinator_state w1 = FetchingField \<and>
         coordinator_state (snd (initFieldData_settled env (Inl e) (p, w1))) = FieldUnavailable \<and>
         list_all (\<lambda>x. m_distribution (snd x) = None) (this_metrics p) \<and>
         crux_loads w1 = crux_loads w @ [(in_url inp, formFactorOf p)] \<and>
         Popup_lifetime env inp (Inl e) w = Done (Some p, w1\<lparr>doc_status := localMetricsOnly\<rparr>)"
proof -
  have a: "initFieldData_settled env (Inl e) (p, w1) = (p, w1\<lparr>doc_status := localMetricsOnly\<rparr>)"
    by (simp add: initFieldData_settled_def setStatus_def)
  have b: "list_all (\<lambda>x. m_distribution (snd x) = None) (this_metrics p)"
    using Popup_Done [OF assms] by (clarsimp simp: new_Metric_def)
  have c: "crux_loads w1 = crux_loads w @ [(in_url inp, formFactorOf p)]"
    using Popup_Done [OF assms] by clarsimp
  have d: "Popup_lifetime env inp (Inl e) w = Done (Some p, w1\<lparr>doc_status := localMetricsOnly\<rparr>)"
    by (simp add: Popup_lifetime_def assms a)
  have f: "coordinator_state w1 = FetchingField"
    by (rule Popup_Done_fetching [OF assms])
  have g: "coordinator_state (w1\<lparr>doc_status := localMetricsOnly\<rparr>) = FieldUnavailable"
    using c by (simp add: coordinator_state_def localMetricsOnly_def ellipsis_def)
  from a b c d f g show ?thesis by simp
qed

theorem field_failure_keeps_metrics_local_witness:
  "Popup example_env example_input example_world = Done (Some example_popup, example_world1) \<and>
   initFieldData_settled example_env (Inl FieldDataTransportError) (example_popup, example_world1)
     = (example_popup, example_world1\<lparr>doc_status := localMetricsOnly\<rparr>) \<and>
   coordinator_state
     (snd (initFieldData_settled example_env (Inl FieldDataTransportError)
             (example_popup, example_world1))) = FieldUnavailable \<and>
   crux_loads example_world1 = [(''https://example.com/a?b=1'', DESKTOP)]"
proof -
  note t = field_failure_keeps_metrics_local [OF example_run, of FieldDataTransportError]
  have l: "crux_loads example_world @ [(in_url example_input, formFactorOf example_popup)] =
             [(''https://example.com/a?b=1'', DESKTOP)]"
    by (simp add: example_world_def example_input_def formFactorOf_def example_popup_def)
  from t have a:
    "initFieldData_settled example_env (Inl FieldDataTransportError) (example_popup, example_world1)
       = (example_popup, example_world1\<lparr>doc_status := localMetricsOnly\<rparr>)"
    by blast
  from t have b:
    "coordinator_state
       (snd (initFieldData_settled example_env (Inl FieldDataTransportError)
               (example_popup, example_world1))) = FieldUnavailable"
    by blast
  from t have c:
    "crux_loads example_world1 =
       crux_loads example_world @ [(in_url example_input, formFactorOf example_popup)]"
    by blast
  from example_run a b c [unfolded l] show ?thesis
    by blast
qed

text \<open>
  C7 (as the code has it). The kinds the popup supports are the keys of \<^verbatim>\<open>this.metrics\<close>;
  after a completed construction these are \<^verbatim>\<open>lcp\<close>, \<^verbatim>\<open>cls\<close>, \<^verbatim>\<open>inp\<close>, \<^verbatim>\<open>fcp\<close> and \<^verbatim>\<open>ttfb\<close>, INP
  included. An entry of a successful response for which \<^verbatim>\<open>this.metrics[id]\<close> is \<^verbatim>\<open>undefined\<close>,
  that is whose id is neither such a key nor the name of a member of \<^verbatim>\<open>Object.prototype\<close>,
  is dropped: the callback returns at once, with the popup and the document as they
  were and no exception. \<^verbatim>\<open>renderFieldData\<close> and the promise callbacks do the same with and
  without such entries, so the processing of the other entries is not affected; and in a
  popup whose Metrics are all rendered \<^verbatim>\<open>renderFieldData\<close> completes without an exception
  when no id of the payload names a member of \<^verbatim>\<open>Object.prototype\<close>.
\<close>

theorem unknown_kinds_dropped:
  "(property_of (this_metrics p) i = Absent \<longleftrightarrow>
      i \<notin> set (map fst (this_metrics p)) \<and> i \<notin> set Object_prototype) \<and>
   (property_of (this_metrics p) i = Absent \<longrightarrow>
      renderFieldData_entry env fd ff (i, d) (p, w) = Done (p, w)) \<and>
   renderFieldData env fd ff (p, w) =
     renderFieldData env
       (fd\<lparr>fd_metrics :=
            filter (\<lambda>x. property_of (this_metrics p) (fst x) \<noteq> Absent) (fd_metrics fd)\<rparr>)
       ff (p, w) \<and>
   initFieldData_settled env (Inr fd) (p, w) =
     initFieldData_settled env
       (Inr (fd\<lparr>fd_metrics :=
                  filter (\<lambda>x. property_of (this_metrics p) (fst x) \<noteq> Absent) (fd_metrics fd)\<rparr>))
       (p, w) \<and>
   (rendered (p, w) \<and> list_all (\<lambda>x. fst x \<notin> set Object_prototype) (fd_metrics fd) \<longrightarrow>
      (\<exists>s'. renderFieldData env fd ff (p, w) = Done s')) \<and>
   (Popup env inp w0 = Done (Some p, w) \<longrightarrow>
      map fst (this_metrics p) = [''lcp'', ''cls'', ''inp'', ''fcp'', ''ttfb''])"
proof -
  let ?fd' =
    "fd\<lparr>fd_metrics :=
         filter (\<lambda>x. property_of (this_metrics p) (fst x) \<noteq> Absent) (fd_metrics fd)\<rparr>"
  have sc: "renderFieldData_entry env ?fd' f = renderFieldData_entry env fd f" for f
    by (rule entry_scope) simp
  have a: "renderFieldData env fd f (p, w) = renderFieldData env ?fd' f (p, w)" for f
    unfolding renderFieldData_def sc
    by (simp add: renderFieldData_scope_def isOriginFallback_def getOrigin_def
        getNormalizedUrl_def getMetrics_def forEach_entries_filter [of env fd f "fd_metrics fd" p])
  have b: "\<exists>s'. renderFieldData env fd ff (p, w) = Done s'"
    if r: "rendered (p, w)"
      and n: "list_all (\<lambda>x. fst x \<notin> set Object_prototype) (fd_metrics fd)"
  proof -
    have "rendered (p, renderFieldData_scope fd ff w)"
      using r by (simp add: rendered_def)
    from forEach_entries_Done [OF this n] show ?thesis
      unfolding renderFieldData_def getMetrics_def by (simp del: split_paired_Ex) blast
  qed
  have c: "initFieldData_settled env (Inr fd) (p, w) = initFieldData_settled env (Inr ?fd') (p, w)"
    using a [of "formFactorOf p"] by (simp add: initFieldData_settled_def)
  have e: "renderFieldData_entry env fd ff (i, d) (p, w) = Done (p, w)"
    if "property_of (this_metrics p) i = Absent"
    using that by (simp add: renderFieldData_entry_def)
  have k: "map fst (this_metrics p) = [''lcp'', ''cls'', ''inp'', ''fcp'', ''ttfb'']"
    if "Popup env inp w0 = Done (Some p, w)"
    using Popup_Done [OF that] by clarsimp
  have g: "property_of (this_metrics p) i = Absent \<longleftrightarrow>
             i \<notin> set (map fst (this_metrics p)) \<and> i \<notin> set Object_prototype"
    by (rule property_of_Absent)
  from g e a [of ff] c b k show ?thesis
    by blast
qed

theorem unknown_kinds_dropped_witness:
  "property_of (this_metrics example_popup) ''round_trip_time'' = Absent \<and>
   renderFieldData_entry example_env example_fieldData DESKTOP (''round_trip_time'', [1, 0, 0])
     (example_popup, example_world1) = Done (example_popup, example_world1) \<and>
   renderFieldData example_env example_fieldData DESKTOP (example_popup, example_world1) =
     renderFieldData example_env
       (example_fieldData\<lparr>fd_metrics := [(''lcp'', [9 / 10, 9 / 10, 9 / 10]),
                                           (''cls'', [62 / 100, 25 / 100, 13 / 100])]\<rparr>)
       DESKTOP (example_popup, example_world1) \<and>
   rendered (example_popup, example_world1) \<and>
   list_all (\<lambda>x. fst x \<notin> set Object_prototype) (fd_metrics example_fieldData) \<and>
   (\<exists>s'. renderFieldData example_env example_fieldData DESKTOP (example_popup, example_world1)
           = Done s') \<and>
   Popup example_env example_input example_world = Done (Some example_popup, example_world1) \<and>
   map fst (this_metrics example_popup) = [''lcp'', ''cls'', ''inp'', ''fcp'', ''ttfb'']"
proof -
  note t = unknown_kinds_dropped
    [of example_popup "''round_trip_time''" example_env example_fieldData DESKTOP "[1, 0, 0]"
        example_world1 example_input example_world]
  have h: "property_of (this_metrics example_popup) ''round_trip_time'' = Absent"
    by (simp add: example_popup_def property_of_def Object_prototype_def)
  have f: "filter (\<lambda>x. property_of (this_metrics example_popup) (fst x) \<noteq> Absent)
             (fd_metrics example_fieldData) =
           [(''lcp'', [9 / 10, 9 / 10, 9 / 10]), (''cls'', [62 / 100, 25 / 100, 13 / 100])]"
    by (simp add: example_popup_def example_fieldData_def property_of_def Object_prototype_def)
  have n: "list_all (\<lambda>x. fst x \<notin> set Object_prototype) (fd_metrics example_fieldData)"
    by (simp add: example_fieldData_def Object_prototype_def)
  from t h have a:
    "renderFieldData_entry example_env example_fieldData DESKTOP (''round_trip_time'', [1, 0, 0])
       (example_popup, example_world1) = Done (example_popup, example_world1)"
    by blast
  from t have b:
    "renderFieldData example_env example_fieldData DESKTOP (example_popup, example_world1) =
       renderFieldData example_env
         (example_fieldData\<lparr>fd_metrics :=
            filter (\<lambda>x. property_of (this_metrics example_popup) (fst x) \<noteq> Absent)
              (fd_metrics example_fieldData)\<rparr>)
         DESKTOP (example_popup, example_world1)"
    by blast
  from t example_rendered n have c:
    "\<exists>s'. renderFieldData example_env example_fieldData DESKTOP (example_popup, example_world1)
           = Done s'"
    by blast
  from t example_run have k:
    "map fst (this_metrics example_popup) = [''lcp'', ''cls'', ''inp'', ''fcp'', ''ttfb'']"
    by blast
  from h a b [unfolded f] c n k example_rendered example_run show ?thesis
    by blast
qed

text \<open>
  The claim C7 as stated fails. A response whose first entry has the id \<^verbatim>\<open>constructor\<close>,
  which names a member of \<^verbatim>\<open>Object.prototype\<close>, is not dropped: the callback throws, the
  popup ends with the status line of the \<^verbatim>\<open>catch\<close> callback, and the CLS entry after it is
  never attached. And a response with an \<^verbatim>\<open>inp\<close> entry has it attached to the INP Metric.
\<close>

theorem prototype_name_not_dropped:
  "property_of (this_metrics example_popup) ''constructor'' = Inherited \<and>
   doc_status
     (snd (state_of (Popup_lifetime example_env example_input (Inr prototype_fieldData)
                       example_world))) = localMetricsOnly \<and>
   map_option m_distribution
     (metric_of ''cls''
        (state_of (Popup_lifetime example_env example_input (Inr prototype_fieldData)
                     example_world))) = Some None \<and>
   map_option m_distribution
     (metric_of ''inp''
        (state_of (Popup_lifetime example_env example_input (Inr inp_fieldData) example_world)))
     = Some (Some [50 / 100, 30 / 100, 20 / 100])"
proof -
  have h: "map_of (this_metrics example_popup) ''constructor'' = None"
    "''constructor'' \<in> set Object_prototype"
    by (simp_all add: example_popup_def Object_prototype_def)
  have a: "property_of (this_metrics example_popup) ''constructor'' = Inherited"
    using h by (simp add: property_of_def)
  have "initFieldData_settled example_env (Inr prototype_fieldData) (example_popup, example_world1) =
          (example_popup,
           (renderFieldData_scope prototype_fieldData (formFactorOf example_popup) example_world1)
             \<lparr>doc_status := localMetricsOnly\<rparr>)"
    by (rule settled_inherited_first [OF _ h]) (simp add: prototype_fieldData_def)
  then have l: "Popup_lifetime example_env example_input (Inr prototype_fieldData) example_world =
          Done (Some example_popup,
           (renderFieldData_scope prototype_fieldData (formFactorOf example_popup) example_world1)
             \<lparr>doc_status := localMetricsOnly\<rparr>)"
    by (simp add: Popup_lifetime_def example_run)
  have b: "doc_status
     (snd (state_of (Popup_lifetime example_env example_input (Inr prototype_fieldData)
                       example_world))) = localMetricsOnly"
    by (simp add: l)
  have c: "map_option m_distribution
     (metric_of ''cls''
        (state_of (Popup_lifetime example_env example_input (Inr prototype_fieldData)
                     example_world))) = Some None"
    by (simp add: l metric_of_def example_popup_def new_Metric_def)
  have n: "list_all (\<lambda>x. fst x \<notin> set Object_prototype) (fd_metrics inp_fieldData)"
    by (simp add: inp_fieldData_def Object_prototype_def)
  from lifetime_success [OF example_run n] obtain w' where
    "Popup_lifetime example_env example_input (Inr inp_fieldData) example_world =
       Done (Some (example_popup\<lparr>this_metrics :=
                     fold attach (fd_metrics inp_fieldData) (this_metrics example_popup)\<rparr>), w')"
    by blast
  then have d: "map_option m_distribution
     (metric_of ''inp''
        (state_of (Popup_lifetime example_env example_input (Inr inp_fieldData) example_world)))
     = Some (Some [50 / 100, 30 / 100, 20 / 100])"
    by (simp add: metric_of_def attach_def example_popup_def inp_fieldData_def new_Metric_def)
  from a b c d show ?thesis
    by blast
qed

text \<open>
  C4 (as the code has it). \<^verbatim>\<open>popup.js\<close> attaches without validation. For every Metric of a
  popup whose Metrics are rendered and every candidate distribution \<open>d\<close>, whatever its
  fractions, the callback of \<^verbatim>\<open>renderFieldData\<close> on an entry for that Metric's id completes
  and leaves the Metric with \<open>d\<close> as its distribution and its kind, local value, rating
  and background as before; the other Metrics and the status line are unchanged. There
  is no \<^verbatim>\<open>InvalidDistribution\<close> outcome.
\<close>

theorem attach_without_validation:
  assumes "rendered (p, w)" and "map_of (this_metrics p) i = Some m0"
  shows "\<exists>p' w'. renderFieldData_entry env fd ff (i, d) (p, w) = Done (p', w') \<and>
           map_of (this_metrics p') i = Some (m0\<lparr>m_distribution := Some d\<rparr>) \<and>
           (\<forall>j. j \<noteq> i \<longrightarrow> map_of (this_metrics p') j = map_of (this_metrics p) j) \<and>
           doc_status w' = doc_status w"
proof -
  from entry_supported [OF assms, of env fd ff d] obtain w' where
    "renderFieldData_entry env fd ff (i, d) (p, w) =
       Done (p\<lparr>this_metrics :=
                 AList.update i (m0\<lparr>m_distribution := Some d\<rparr>) (this_metrics p)\<rparr>, w')"
    and "doc_status w' = doc_status w"
    by blast
  then show ?thesis
    by (simp add: update_conv')
qed

theorem attach_without_validation_witness:
  "rendered (example_popup, example_world1) \<and>
   map_of (this_metrics example_popup) ''lcp'' = Some (new_Metric LCP 1800 (Some Good) False) \<and>
   (\<exists>p' w'. renderFieldData_entry example_env example_fieldData DESKTOP
               (''lcp'', [9 / 10, 9 / 10, 9 / 10]) (example_popup, example_world1) = Done (p', w') \<and>
            map_of (this_metrics p') ''lcp'' =
              Some ((new_Metric LCP 1800 (Some Good) False)
                      \<lparr>m_distribution := Some [9 / 10, 9 / 10, 9 / 10]\<rparr>))"
proof -
  have h: "map_of (this_metrics example_popup) ''lcp'' = Some (new_Metric LCP 1800 (Some Good) False)"
    by (simp add: example_popup_def)
  from attach_without_validation [OF example_rendered h] example_rendered h show ?thesis
    by blast
qed

text \<open>
  The claim C4 as stated fails: in the example popup, a successful response whose LCP
  distribution has the fractions 0.9, 0.9, 0.9 (sum 2.7) leaves the LCP Metric with that
  distribution attached.
\<close>

theorem invalid_distribution_attached:
  "\<not> valid_distribution (1 / 1000) [9 / 10, 9 / 10, 9 / 10] \<and>
   map_option m_distribution
     (metric_of ''lcp''
        (state_of (Popup_lifetime example_env example_input (Inr example_fieldData) example_world)))
     = Some (Some [9 / 10, 9 / 10, 9 / 10])"
proof -
  have "list_all (\<lambda>x. fst x \<notin> set Object_prototype) (fd_metrics example_fieldData)"
    by (simp add: example_fieldData_def Object_prototype_def)
  from lifetime_success [OF example_run this] obtain w' where
    "Popup_lifetime example_env example_input (Inr example_fieldData) example_world =
       Done (Some (example_popup\<lparr>this_metrics :=
                     fold attach (fd_metrics example_fieldData) (this_metrics example_popup)\<rparr>), w')"
    by blast
  then show ?thesis
    by (simp add: valid_distribution_def metric_of_def attach_def example_popup_def
        example_fieldData_def new_Metric_def)
qed

text \<open>
  C9 (as the code has it). \<^verbatim>\<open>popup.js\<close> treats INP as an active kind: whenever the
  construction completes, the local metrics held an \<^verbatim>\<open>inp\<close> sample and \<^verbatim>\<open>initMetrics\<close> has
  created an INP Metric from it under the key \<^verbatim>\<open>inp\<close>, with the value and the rating of
  that sample, as for the other four kinds.
\<close>

theorem inp_metric_created:
  assumes "Popup env inp w = Done (Some p, w1)"
  shows "\<exists>smp. this__metrics p ''inp'' = Some smp \<and>
           map_of (this_metrics p) ''inp'' =
             Some (new_Metric INP (s_value smp) (s_rating smp) (in_background inp))"
  using Popup_Done [OF assms] by clarsimp

theorem inp_metric_created_witness:
  "Popup example_env example_input example_world = Done (Some example_popup, example_world1) \<and>
   (\<exists>smp. this__metrics example_popup ''inp'' = Some smp \<and>
      map_of (this_metrics example_popup) ''inp'' =
        Some (new_Metric INP (s_value smp) (s_rating smp) (in_background example_input)))"
  using inp_metric_created [OF example_run] example_run by blast

text \<open>
  The claim C9 as stated fails: the example popup, constructed from local metrics with
  the five samples, holds an INP Metric.
\<close>

theorem inp_metric_exists:
  "metric_of ''inp'' (state_of (Popup example_env example_input example_world)) =
     Some (new_Metric INP 1800 (Some Good) False)"
  by (simp add: example_run metric_of_def example_popup_def)

text \<open>
  Two more facts about INP in \<^verbatim>\<open>popup.js\<close>: \<^verbatim>\<open>renderMetrics\<close> appends an element for the INP
  Metric, and local metrics without an \<^verbatim>\<open>inp\<close> sample make the constructor throw.
\<close>

lemma inp_element_appended:
  assumes "Popup env inp w = Done (Some p, w1)"
  shows "''inp'' \<in> set (element_ids w1)"
  using Popup_Done [OF assms] by (clarsimp simp: new_Metric_def)

lemma missing_inp_sample_throws:
  assumes "in_error inp = None" and "in_metrics inp = Some lm" and "lm_samples lm ''inp'' = None"
  shows "\<exists>s. Popup env inp w = Threw TypeError s"
  using assms
  by (auto simp: Popup_def init_def initMetrics_def create_def split: option.splits)

section \<open>Properties of the field-data client\<close>

lemma origin_scan_prefix: "prefix (origin_scan n u) u"
  by (induction u arbitrary: n) auto

lemma scope_page_origin:
  "isOriginFallback fd \<Longrightarrow> doc_page (renderFieldData_scope fd ff w) = getOrigin fd"
  by (simp add: renderFieldData_scope_def setPage_def)

text \<open>
  C2. If the API answers the page-level request with not-found, the client issues a
  second request, for the origin (scheme and host, an initial part of the page URL).
  When that request returns a record, the result has the scope origin-fallback and the
  origin as its effective URL, and a popup whose Metrics are rendered then shows the
  origin as its page.
\<close>

theorem origin_fallback_result:
  assumes "api (PageRequest (stripQuery url) ff) = NotFound"
    and "api (OriginRequest (origin_of url) ff) = Record matched entries"
  shows "load api url ff =
           (Inr \<lparr>fd_scope = OriginFallback, fd_url = origin_of url, fd_metrics = entries,
                 fd_formFactor = ff\<rparr>,
            [PageRequest (stripQuery url) ff, OriginRequest (origin_of url) ff]) \<and>
         prefix (origin_of url) url \<and>
         (rendered (p, w) \<longrightarrow>
            doc_page (snd (initFieldData_settled env (fst (load api url ff)) (p, w)))
              = origin_of url)"
proof -
  let ?fd = "\<lparr>fd_scope = OriginFallback, fd_url = origin_of url, fd_metrics = entries,
              fd_formFactor = ff\<rparr>"
  have a: "load api url ff =
             (Inr ?fd, [PageRequest (stripQuery url) ff, OriginRequest (origin_of url) ff])"
    using assms by (simp add: load_def)
  have b: "prefix (origin_of url) url"
    by (simp add: origin_of_def origin_scan_prefix)
  have c: "doc_page (snd (initFieldData_settled env (Inr ?fd) (p, w))) = origin_of url"
    if "rendered (p, w)"
    by (simp add: settled_doc_page scope_page_origin isOriginFallback_def getOrigin_def)
  from a b c show ?thesis by simp
qed

theorem origin_fallback_result_witness:
  "example_api (PageRequest (stripQuery ''https://example.com/a?b=1'') DESKTOP) = NotFound \<and>
   origin_of ''https://example.com/a?b=1'' = ''https://example.com'' \<and>
   load example_api ''https://example.com/a?b=1'' DESKTOP =
     (Inr \<lparr>fd_scope = OriginFallback, fd_url = ''https://example.com'',
           fd_metrics = [(''cls'', [62 / 100, 25 / 100, 13 / 100])], fd_formFactor = DESKTOP\<rparr>,
      [PageRequest ''https://example.com/a'' DESKTOP,
       OriginRequest ''https://example.com'' DESKTOP]) \<and>
   rendered (example_popup, example_world1) \<and>
   doc_page (snd (initFieldData_settled example_env
                    (fst (load example_api ''https://example.com/a?b=1'' DESKTOP))
                    (example_popup, example_world1)))
     = ''https://example.com''"
proof -
  have o: "origin_of ''https://example.com/a?b=1'' = ''https://example.com''"
    by (simp add: origin_of_def)
  have q: "stripQuery ''https://example.com/a?b=1'' = ''https://example.com/a''"
    by (simp add: stripQuery_def)
  have h1: "example_api (PageRequest (stripQuery ''https://example.com/a?b=1'') DESKTOP) = NotFound"
    by (simp add: example_api_def)
  have h2: "example_api (OriginRequest (origin_of ''https://example.com/a?b=1'') DESKTOP) =
              Record ''https://example.com'' [(''cls'', [62 / 100, 25 / 100, 13 / 100])]"
    by (simp add: example_api_def o)
  note t = origin_fallback_result [OF h1 h2, of example_popup example_world1 example_env]
  from t have a:
    "load example_api ''https://example.com/a?b=1'' DESKTOP =
       (Inr \<lparr>fd_scope = OriginFallback, fd_url = origin_of ''https://example.com/a?b=1'',
             fd_metrics = [(''cls'', [62 / 100, 25 / 100, 13 / 100])], fd_formFactor = DESKTOP\<rparr>,
        [PageRequest (stripQuery ''https://example.com/a?b=1'') DESKTOP,
         OriginRequest (origin_of ''https://example.com/a?b=1'') DESKTOP])"
    by blast
  from t example_rendered have c:
    "doc_page (snd (initFieldData_settled example_env
                      (fst (load example_api ''https://example.com/a?b=1'' DESKTOP))
                      (example_popup, example_world1)))
       = origin_of ''https://example.com/a?b=1''"
    by blast
  from h1 o a [unfolded o q] example_rendered c [unfolded o] show ?thesis
    by blast
qed

text \<open>
  C6. The client returns \<^verbatim>\<open>FieldDataUnavailable\<close> exactly when the page-level and the
  origin-level request are both answered with not-found, and \<^verbatim>\<open>FieldDataTransportError\<close>
  exactly when the request it issued last failed in transport; the two are different
  results. The popup shows the same status line after either.
\<close>

theorem unavailable_distinct_from_transport_error:
  "(fst (load api url ff) = Inl FieldDataUnavailable \<longleftrightarrow>
      api (PageRequest (stripQuery url) ff) = NotFound \<and>
      api (OriginRequest (origin_of url) ff) = NotFound) \<and>
   (fst (load api url ff) = Inl FieldDataTransportError \<longleftrightarrow>
      api (PageRequest (stripQuery url) ff) = TransportFailure \<or>
      api (PageRequest (stripQuery url) ff) = NotFound \<and>
      api (OriginRequest (origin_of url) ff) = TransportFailure) \<and>
   (Inl FieldDataUnavailable :: field_error + fieldData) \<noteq> Inl FieldDataTransportError \<and>
   initFieldData_settled env (Inl FieldDataUnavailable) s =
     initFieldData_settled env (Inl FieldDataTransportError) s \<and>
   doc_status (snd (initFieldData_settled env (Inl FieldDataUnavailable) s)) = localMetricsOnly"
  by (auto simp: load_def Let_def initFieldData_settled_def setStatus_def split: response.splits)

theorem unavailable_distinct_from_transport_error_witness:
  "fst (load empty_api ''https://example.com/a?b=1'' DESKTOP) = Inl FieldDataUnavailable \<and>
   fst (load empty_api ''https://example.com/a?b=1'' DESKTOP) \<noteq> Inl FieldDataTransportError \<and>
   doc_status (snd (initFieldData_settled example_env
                      (fst (load empty_api ''https://example.com/a?b=1'' DESKTOP))
                      (example_popup, example_world1))) = localMetricsOnly"
proof -
  note t = unavailable_distinct_from_transport_error
    [of empty_api "''https://example.com/a?b=1''" DESKTOP example_env
        "(example_popup, example_world1)"]
  have n: "empty_api r = NotFound" for r
    by (simp add: empty_api_def)
  from t n have a:
    "fst (load empty_api ''https://example.com/a?b=1'' DESKTOP) = Inl FieldDataUnavailable"
    by blast
  from t have c:
    "doc_status (snd (initFieldData_settled example_env (Inl FieldDataUnavailable)
                        (example_popup, example_world1))) = localMetricsOnly"
    by blast
  from a c show ?thesis
    by simp
qed

end
